theory Spec2Isabelle
  imports Main "HOL-Library.Word" "HOL-Library.Char_ord" "HOL-Library.List_Lexorder"
    "HOL-Library.Sublist"
begin

unbundle bit_operations_syntax

section \<open>Go strings\<close>

text \<open>
  A Go \<open>string\<close> is a sequence of bytes; it is modelled as a \<open>char list\<close>, one \<open>char\<close>
  per byte. The functions of package \<open>strings\<close> that the proxy calls are written out
  below with the results the Go library gives them.
\<close>

text \<open>\<open>strings.IndexByte\<close>: the index of the first occurrence of a byte, or \<open>-1\<close>.\<close>

fun strings_IndexByte :: "string \<Rightarrow> char \<Rightarrow> int" where
  "strings_IndexByte [] c = -1"
| "strings_IndexByte (x # xs) c =
     (if x = c then 0
      else (let i = strings_IndexByte xs c in if i = -1 then -1 else i + 1))"

text \<open>
  \<open>strings.IndexRune\<close> for a rune below \<open>utf8.RuneSelf\<close> (an ASCII character, as the
  \<open>':'\<close> the proxy looks for) is \<open>strings.IndexByte\<close>.
\<close>

definition strings_IndexRune :: "string \<Rightarrow> char \<Rightarrow> int" where
  "strings_IndexRune s r = strings_IndexByte s r"

text \<open>\<open>strings.HasPrefix\<close>: \<open>len(s) >= len(prefix) && s[:len(prefix)] == prefix\<close>.\<close>

definition strings_HasPrefix :: "string \<Rightarrow> string \<Rightarrow> bool" where
  "strings_HasPrefix s pre = (length pre \<le> length s \<and> take (length pre) s = pre)"

text \<open>\<open>strings.Index\<close>: the index of the first occurrence of a substring, or \<open>-1\<close>.\<close>

fun strings_Index :: "string \<Rightarrow> string \<Rightarrow> int" where
  "strings_Index [] sub = (if sub = [] then 0 else -1)"
| "strings_Index (x # xs) sub =
     (if strings_HasPrefix (x # xs) sub then 0
      else (let i = strings_Index xs sub in if i = -1 then -1 else i + 1))"

text \<open>\<open>strings.Contains(s, substr)\<close> is \<open>strings.Index(s, substr) >= 0\<close>.\<close>

definition strings_Contains :: "string \<Rightarrow> string \<Rightarrow> bool" where
  "strings_Contains s sub = (0 \<le> strings_Index s sub)"

lemma strings_Index_ge: "-1 \<le> strings_Index s sub"
  by (induction s) (auto simp: Let_def)

lemma strings_Index_found:
  "0 \<le> strings_Index s sub \<Longrightarrow>
     nat (strings_Index s sub) + length sub \<le> length s \<and>
     take (length sub) (drop (nat (strings_Index s sub)) s) = sub"
proof (induction s)
  case Nil
  then show ?case by (simp split: if_splits)
next
  case (Cons x xs)
  show ?case
  proof (cases "strings_HasPrefix (x # xs) sub")
    case True
    then show ?thesis by (simp add: strings_HasPrefix_def)
  next
    case False
    with Cons.prems have nn: "strings_Index xs sub \<noteq> -1" and ge: "0 \<le> strings_Index xs sub"
      using strings_Index_ge [of xs sub] by (auto simp: Let_def split: if_splits)
    from Cons.IH [OF ge] False nn ge show ?thesis
      by (simp add: Let_def nat_add_distrib)
  qed
qed

text \<open>
  \<open>strings.Split(s, sep)\<close> for a non-empty separator: the pieces of \<open>s\<close> between the
  occurrences of \<open>sep\<close>, found left to right; a string without the separator is the one
  piece. (With the empty separator Go explodes \<open>s\<close> into its UTF-8 sequences; the
  proxy never does that, and the model gives the bytes.)
\<close>

function strings_Split :: "string \<Rightarrow> string \<Rightarrow> string list" where
  "strings_Split s sep =
     (if sep = [] then map (\<lambda>c. [c]) s
      else (let i = strings_Index s sep in
            if i < 0 then [s]
            else take (nat i) s # strings_Split (drop (nat i + length sep) s) sep))"
  by pat_completeness auto
termination
proof (relation "measure (\<lambda>(s, sep). length s)")
  show "wf (measure (\<lambda>(s, sep). length s))" by simp
next
  fix s sep :: string and i :: int
  assume sep: "sep \<noteq> []" and i: "i = strings_Index s sep" and nneg: "\<not> i < 0"
  from i nneg have "0 \<le> strings_Index s sep" by simp
  from strings_Index_found [OF this] sep i
  have "nat i + length sep \<le> length s" and "0 < length sep" by simp_all
  then have "length s - (nat i + length sep) < length s"
    by arith
  then show "((drop (nat i + length sep) s, sep), (s, sep)) \<in> measure (\<lambda>(s, sep). length s)"
    by simp
qed

declare strings_Split.simps [simp del]

text \<open>Splitting at one byte, by recursion over the string.\<close>

fun split_byte :: "char \<Rightarrow> string \<Rightarrow> string list" where
  "split_byte c [] = [[]]"
| "split_byte c (x # xs) =
     (if x = c then [] # split_byte c xs
      else (case split_byte c xs of p # ps \<Rightarrow> (x # p) # ps | [] \<Rightarrow> [[x]]))"

section \<open>Port stripping (https.go)\<close>

text \<open>
  \<^verbatim>\<open>func stripPort(s string) string {
      ix := strings.IndexRune(s, ':')
      if ix == -1 { return s }
      return s[:ix] }\<close>
\<close>

definition stripPort :: "string \<Rightarrow> string" where
  "stripPort s =
     (let ix = strings_IndexRune s CHR '':'' in
      if ix = -1 then s else take (nat ix) s)"

section \<open>SHA-1 (crypto/sha1)\<close>

text \<open>
  \<open>hashSorted\<close> feeds its input to \<open>sha1.New()\<close>. SHA-1 is written out here (FIPS 180-4)
  on 32-bit words held as integers in \<open>[0, 2^32)\<close>, with the wrap-around of every
  addition and rotation written as \<open>mod 2^32\<close>.
\<close>

text \<open>The big-endian encoding of a non-negative integer in \<open>n\<close> bytes.\<close>

definition be_bytes :: "nat \<Rightarrow> int \<Rightarrow> string" where
  "be_bytes n v = map (\<lambda>i. char_of (v div 256 ^ (n - 1 - i))) [0..<n]"

definition sha1_pad :: "string \<Rightarrow> string" where
  "sha1_pad m =
     m @ [char_of (128 :: int)] @ replicate ((119 - length m mod 64) mod 64) (char_of (0 :: int))
       @ be_bytes 8 (8 * int (length m))"

definition add32 :: "int \<Rightarrow> int \<Rightarrow> int" where
  "add32 a b = (a + b) mod 4294967296"

definition rotl32 :: "nat \<Rightarrow> int \<Rightarrow> int" where
  "rotl32 n x = (x * 2 ^ n) mod 4294967296 + x div 2 ^ (32 - n)"

definition not32 :: "int \<Rightarrow> int" where
  "not32 x = 4294967295 - x"

fun be_words :: "string \<Rightarrow> int list" where
  "be_words (a # b # c # d # rest) =
     (((of_char a * 256 + of_char b) * 256 + of_char c) * 256 + of_char d) # be_words rest"
| "be_words _ = []"

text \<open>
  The message schedule, newest word first: \<open>W[t] = rotl 1 (W[t-3] xor W[t-8] xor W[t-14]
  xor W[t-16])\<close>.
\<close>

fun sha1_extend :: "nat \<Rightarrow> int list \<Rightarrow> int list" where
  "sha1_extend 0 ws = ws"
| "sha1_extend (Suc n) ws =
     sha1_extend n (rotl32 1 (ws ! 2 XOR ws ! 7 XOR ws ! 13 XOR ws ! 15) # ws)"

definition sha1_f :: "nat \<Rightarrow> int \<Rightarrow> int \<Rightarrow> int \<Rightarrow> int" where
  "sha1_f t b c d =
     (if t < 20 then (b AND c) OR (not32 b AND d)
      else if t < 40 then b XOR c XOR d
      else if t < 60 then (b AND c) OR (b AND d) OR (c AND d)
      else b XOR c XOR d)"

definition sha1_k :: "nat \<Rightarrow> int" where
  "sha1_k t =
     (if t < 20 then 0x5A827999 else if t < 40 then 0x6ED9EBA1
      else if t < 60 then 0x8F1BBCDC else 0xCA62C1D6)"

type_synonym sha1_state = "int \<times> int \<times> int \<times> int \<times> int"

fun sha1_rounds :: "nat \<Rightarrow> sha1_state \<Rightarrow> int list \<Rightarrow> sha1_state" where
  "sha1_rounds t s [] = s"
| "sha1_rounds t (a, b, c, d, e) (w # ws) =
     sha1_rounds (t + 1)
       (add32 (add32 (add32 (add32 (rotl32 5 a) (sha1_f t b c d)) e) w) (sha1_k t),
        a, rotl32 30 b, c, d) ws"

fun sha1_block :: "sha1_state \<Rightarrow> string \<Rightarrow> sha1_state" where
  "sha1_block (h0, h1, h2, h3, h4) blk =
     (case sha1_rounds 0 (h0, h1, h2, h3, h4) (rev (sha1_extend 64 (rev (be_words blk)))) of
        (a, b, c, d, e) \<Rightarrow> (add32 h0 a, add32 h1 b, add32 h2 c, add32 h3 d, add32 h4 e))"

fun sha1_blocks :: "sha1_state \<Rightarrow> string \<Rightarrow> sha1_state" where
  "sha1_blocks s m =
     (if length m < 64 then s else sha1_blocks (sha1_block s (take 64 m)) (drop 64 m))"

declare sha1_blocks.simps [simp del]

definition sha1_init :: sha1_state where
  "sha1_init = (0x67452301, 0xEFCDAB89, 0x98BADCFE, 0x10325476, 0xC3D2E1F0)"

fun sha1_out :: "sha1_state \<Rightarrow> string" where
  "sha1_out (h0, h1, h2, h3, h4) = concat (map (be_bytes 4) [h0, h1, h2, h3, h4])"

definition sha1_Sum :: "string \<Rightarrow> string" where
  "sha1_Sum m = sha1_out (sha1_blocks sha1_init (sha1_pad m))"

section \<open>The certificate signer (signer.go)\<close>

subsection \<open>hashSorted\<close>

text \<open>
  \<^verbatim>\<open>func hashSorted(lst []string) []byte {
      c := make([]string, len(lst)); copy(c, lst); sort.Strings(c)
      h := sha1.New()
      for _, s := range c { h.Write([]byte(s + ",")) }
      return h.Sum(nil) }\<close>

  \<open>sort.Strings\<close> orders strings byte by byte, a proper prefix first: the order of
  \<open>char list\<close>. The hash object is the bytes written to it so far; \<open>Sum\<close> is their digest.
\<close>

fun hash_writes :: "string \<Rightarrow> string list \<Rightarrow> string" where
  "hash_writes h [] = h"
| "hash_writes h (s # c) = hash_writes (h @ (s @ '','')) c"

definition hashSorted :: "string list \<Rightarrow> string" where
  "hashSorted lst = (let c = sort lst in sha1_Sum (hash_writes [] c))"

text \<open>\<open>big.Int.SetBytes\<close>: the bytes read as a big-endian unsigned integer.\<close>

definition big_SetBytes :: "string \<Rightarrow> int" where
  "big_SetBytes bs = foldl (\<lambda>acc b. acc * 256 + of_char b) 0 bs"

definition hashSortedBigInt :: "string list \<Rightarrow> int" where
  "hashSortedBigInt lst = big_SetBytes (hashSorted lst)"

definition goproxySignerVersion :: string where
  "goproxySignerVersion = '':goroxy1''"

subsection \<open>Values of the Go library\<close>

text \<open>A Go \<open>error\<close> value, with the message its \<open>Error()\<close> method gives.\<close>

datatype error = Error (error_msg: string)

text \<open>
  What a call gives back: the named results \<open>(cert, err)\<close> of a \<open>return\<close>, or a panic
  with its message.
\<close>

datatype 'a outcome = Returned 'a "error option" | Panicked string

text \<open>
  A \<open>time.Time\<close> in UTC: seconds since the Unix epoch and nanoseconds within the second.
  \<open>time.Parse\<close> is written out for the one layout the signer uses, \<open>"2006-01-02"\<close>
  (four digits, two digits, two digits, a valid calendar date, midnight UTC).
\<close>

type_synonym time_Time = "int \<times> int"

definition time_Unix :: "int \<Rightarrow> int \<Rightarrow> time_Time" where
  "time_Unix sec nsec = (sec + nsec div 1000000000, nsec mod 1000000000)"

definition days_from_civil :: "int \<Rightarrow> int \<Rightarrow> int \<Rightarrow> int" where
  "days_from_civil y m d =
     (let y' = (if m \<le> 2 then y - 1 else y);
          era = y' div 400;
          yoe = y' - era * 400;
          doy = (153 * (if m > 2 then m - 3 else m + 9) + 2) div 5 + d - 1;
          doe = yoe * 365 + yoe div 4 - yoe div 100 + doy
      in era * 146097 + doe - 719468)"

definition time_Date :: "int \<Rightarrow> int \<Rightarrow> int \<Rightarrow> time_Time" where
  "time_Date y m d = (86400 * days_from_civil y m d, 0)"

definition days_in :: "int \<Rightarrow> int \<Rightarrow> int" where
  "days_in m y =
     (if m = 2 then (if y mod 4 = 0 \<and> (y mod 100 \<noteq> 0 \<or> y mod 400 = 0) then 29 else 28)
      else if m = 4 \<or> m = 6 \<or> m = 9 \<or> m = 11 then 30 else 31)"

fun atoi_digits :: "int \<Rightarrow> string \<Rightarrow> int option" where
  "atoi_digits acc [] = Some acc"
| "atoi_digits acc (c # cs) =
     (if CHR ''0'' \<le> c \<and> c \<le> CHR ''9'' then atoi_digits (acc * 10 + (of_char c - 48)) cs
      else None)"

definition time_Parse :: "string \<Rightarrow> string \<Rightarrow> error + time_Time" where
  "time_Parse layout v =
     (if layout \<noteq> ''2006-01-02'' then Inl (Error ''layout not modelled'')
      else if length v \<noteq> 10 \<or> v ! 4 \<noteq> CHR ''-'' \<or> v ! 7 \<noteq> CHR ''-''
        then Inl (Error ''parsing time: cannot parse'')
      else (case (atoi_digits 0 (take 4 v), atoi_digits 0 (take 2 (drop 5 v)),
                  atoi_digits 0 (take 2 (drop 8 v))) of
              (Some y, Some m, Some d) \<Rightarrow>
                (if 1 \<le> m \<and> m \<le> 12 \<and> 1 \<le> d \<and> d \<le> days_in m y then Inr (time_Date y m d)
                 else Inl (Error ''parsing time: out of range''))
            | _ \<Rightarrow> Inl (Error ''parsing time: cannot parse'')))"

text \<open>
  \<open>pkix.Name\<close> and \<open>x509.Certificate\<close>, with the fields the signer sets or reads.
  \<open>KeyUsage\<close> is a bit set; \<open>net.IP\<close> is a byte slice.
\<close>

record pkix_Name =
  Organization :: "string list"
  CommonName :: string

datatype x509_ExtKeyUsage =
  ExtKeyUsageAny | ExtKeyUsageServerAuth | ExtKeyUsageClientAuth | ExtKeyUsageCodeSigning

definition x509_KeyUsageDigitalSignature :: int where
  "x509_KeyUsageDigitalSignature = push_bit 0 1"

definition x509_KeyUsageKeyEncipherment :: int where
  "x509_KeyUsageKeyEncipherment = push_bit 2 1"

record x509_Certificate =
  SerialNumber :: int
  Issuer :: pkix_Name
  Subject :: pkix_Name
  NotBefore :: time_Time
  NotAfter :: time_Time
  KeyUsage :: int
  ExtKeyUsage :: "x509_ExtKeyUsage list"
  BasicConstraintsValid :: bool
  IPAddresses :: "string list"
  DNSNames :: "string list"

text \<open>
  \<open>tls.Certificate\<close>: the DER chain and the private key (an interface value, \<open>nil\<close> in
  the zero value). DER blobs, keys and the state of the random stream are left as type
  parameters: the signer only passes them between library calls.
\<close>

record ('der, 'key) tls_Certificate =
  Certificate :: "'der list"
  PrivateKey :: "'key option"

definition zero_Certificate :: "('der, 'key) tls_Certificate" where
  "zero_Certificate = \<lparr>Certificate = [], PrivateKey = None\<rparr>"

text \<open>
  The library calls of \<open>signHost\<close> whose results the signer does not look into, as
  parameters of the model. A call that draws from the random stream returns the
  advanced stream (Go passes \<open>&csprng\<close>). \<open>NewCounterEncryptorRandFromKey\<close> is the
  proxy's own constructor of the deterministic stream (counterecryptor.go).

  \<open>rsa.GenerateKey(random, bits)\<close> is not a function of the bytes of \<open>random\<close>: before
  it draws the primes it calls \<open>randutil.MaybeReadByte(random)\<close>, which reads one byte
  from the reader or none, as the runtime chooses between two ready channels. The
  choice made in the call is an argument of \<open>rsa_GenerateKey\<close>, and the field
  \<open>randutil_MaybeReadByte\<close> is the choice of the run. A value of this record is the
  library as it behaves during one call of \<open>signHost\<close>, which generates at most one
  key; two runs of the program need not agree on the field.
\<close>

record ('der, 'key, 'pub, 'rng) golib =
  x509_ParseCertificate :: "'der \<Rightarrow> error + x509_Certificate"
  net_ParseIP :: "string \<Rightarrow> string option"
  runtime_Version :: string
  NewCounterEncryptorRandFromKey :: "'key option \<Rightarrow> string \<Rightarrow> error + 'rng"
  randutil_MaybeReadByte :: bool
  rsa_GenerateKey :: "bool \<Rightarrow> 'rng \<Rightarrow> nat \<Rightarrow> (error + 'key) \<times> 'rng"
  rsa_PublicKey :: "'key \<Rightarrow> 'pub"
  x509_CreateCertificate ::
    "'rng \<Rightarrow> x509_Certificate \<Rightarrow> x509_Certificate \<Rightarrow> 'pub \<Rightarrow> 'key option \<Rightarrow> (error + 'der) \<times> 'rng"

subsection \<open>signHost\<close>

text \<open>
  The global \<open>hostMap map[string]tls.Certificate\<close>: \<open>None\<close> is the \<open>nil\<close> map the
  process starts with.
\<close>

type_synonym ('der, 'key) hostMap = "(string \<rightharpoonup> ('der, 'key) tls_Certificate) option"

text \<open>
  Lines 40-51, the cache: \<open>Some cert\<close> when \<open>signHost\<close> returns \<open>cert\<close> with a \<open>nil\<close>
  error from there, \<open>None\<close> when it goes on to mint.
  \<^verbatim>\<open>if hostMap != nil {
      if len(hosts) == 0 { return }
      cachedCert, ok := hostMap[hosts[0]]
      if ok { cert = cachedCert; return } }\<close>
\<close>

definition signHost_cache ::
  "('der, 'key) hostMap \<Rightarrow> string list \<Rightarrow> ('der, 'key) tls_Certificate option" where
  "signHost_cache hostMap hosts =
     (case hostMap of
        None \<Rightarrow> None
      | Some m \<Rightarrow> (case hosts of [] \<Rightarrow> Some zero_Certificate | h0 # _ \<Rightarrow> m h0))"

text \<open>
  Lines 79-86, the loop over the hosts:
  \<^verbatim>\<open>for _, h := range hosts {
      if ip := net.ParseIP(h); ip != nil {
          template.IPAddresses = append(template.IPAddresses, ip)
      } else {
          template.DNSNames = append(template.DNSNames, h)
          template.Subject.CommonName = h } }\<close>
\<close>

fun signHost_hosts ::
  "('der, 'key, 'pub, 'rng) golib \<Rightarrow> string list \<Rightarrow> x509_Certificate \<Rightarrow> x509_Certificate" where
  "signHost_hosts L [] template = template"
| "signHost_hosts L (h # hs) template =
     signHost_hosts L hs
       (case net_ParseIP L h of
          Some ip \<Rightarrow> template\<lparr>IPAddresses := IPAddresses template @ [ip]\<rparr>
        | None \<Rightarrow> template\<lparr>DNSNames := DNSNames template @ [h],
                            Subject := (Subject template)\<lparr>CommonName := h\<rparr>\<rparr>)"

text \<open>
  Lines 57 and 62-86, the template for a parsed CA certificate, the end date and the
  hash of line 62.
\<close>

definition signHost_template ::
  "('der, 'key, 'pub, 'rng) golib \<Rightarrow> x509_Certificate \<Rightarrow> string list \<Rightarrow> time_Time \<Rightarrow> string
     \<Rightarrow> x509_Certificate" where
  "signHost_template L x509ca hosts end hash =
     (let start = time_Unix 0 0;
          serial = big_SetBytes hash
      in signHost_hosts L hosts
           \<lparr>SerialNumber = serial,
            Issuer = Subject x509ca,
            Subject = \<lparr>Organization = [''GoProxy untrusted MITM proxy Inc''], CommonName = []\<rparr>,
            NotBefore = start,
            NotAfter = end,
            KeyUsage = x509_KeyUsageKeyEncipherment OR x509_KeyUsageDigitalSignature,
            ExtKeyUsage = [ExtKeyUsageServerAuth],
            BasicConstraintsValid = True,
            IPAddresses = [],
            DNSNames = []\<rparr>)"

text \<open>Lines 109-113: \<open>for _, h := range hosts { hostMap[h] = tlsCert }\<close>.\<close>

fun signHost_store ::
  "string list \<Rightarrow> 'c \<Rightarrow> (string \<rightharpoonup> 'c) \<Rightarrow> (string \<rightharpoonup> 'c)" where
  "signHost_store [] tlsCert m = m"
| "signHost_store (h # hs) tlsCert m = signHost_store hs tlsCert (m(h \<mapsto> tlsCert))"

text \<open>
  \<open>signHost\<close> (lines 36-116), with the global \<open>hostMap\<close> passed in and returned. An
  error return leaves the named result \<open>cert\<close> at its zero value; \<open>ca.Certificate[0]\<close>
  on an empty chain and a failing \<open>time.Parse\<close> panic.
\<close>

definition signHost ::
  "('der, 'key, 'pub, 'rng) golib \<Rightarrow> ('der, 'key) tls_Certificate \<Rightarrow> string list
     \<Rightarrow> ('der, 'key) hostMap
     \<Rightarrow> ('der, 'key) tls_Certificate outcome \<times> ('der, 'key) hostMap" where
  "signHost L ca hosts hostMap =
     (case signHost_cache hostMap hosts of
        Some cert \<Rightarrow> (Returned cert None, hostMap)
      | None \<Rightarrow>
     (case Certificate ca of
        [] \<Rightarrow> (Panicked ''index out of range [0] with length 0'', hostMap)
      | ca0 # _ \<Rightarrow>
     (case x509_ParseCertificate L ca0 of
        Inl err \<Rightarrow> (Returned zero_Certificate (Some err), hostMap)
      | Inr x509ca \<Rightarrow>
     (case time_Parse ''2006-01-02'' ''2049-12-31'' of
        Inl err \<Rightarrow> (Panicked (error_msg err), hostMap)
      | Inr end \<Rightarrow>
     (let hash = hashSorted (hosts @ [goproxySignerVersion, '':'' @ runtime_Version L]);
          template = signHost_template L x509ca hosts end hash
      in
     (case NewCounterEncryptorRandFromKey L (PrivateKey ca) hash of
        Inl err \<Rightarrow> (Returned zero_Certificate (Some err), hostMap)
      | Inr csprng \<Rightarrow>
     (case rsa_GenerateKey L (randutil_MaybeReadByte L) csprng 2048 of
        (Inl err, _) \<Rightarrow> (Returned zero_Certificate (Some err), hostMap)
      | (Inr certpriv, csprng1) \<Rightarrow>
     (case x509_CreateCertificate L csprng1 template x509ca (rsa_PublicKey L certpriv)
             (PrivateKey ca) of
        (Inl err, _) \<Rightarrow> (Returned zero_Certificate (Some err), hostMap)
      | (Inr derBytes, _) \<Rightarrow>
          (let tlsCert = \<lparr>Certificate = [derBytes, ca0], PrivateKey = Some certpriv\<rparr>;
               m = (case hostMap of None \<Rightarrow> Map.empty | Some m \<Rightarrow> m)
           in (Returned tlsCert None, Some (signHost_store hosts tlsCert m)))))))))))"

section \<open>The TLS configuration factory (https.go)\<close>

text \<open>
  \<open>tls.Config\<close> with the two fields the factory sets, and the part of \<open>ProxyCtx\<close> it
  reads: the optional certificate store, whose \<open>Fetch(hostname, gen)\<close> is given the
  generator to call on a miss. The process-wide \<open>defaultTLSConfig\<close> is a parameter.
\<close>

record ('der, 'key) tls_Config =
  ServerName :: string
  Certificates :: "('der, 'key) tls_Certificate list"

type_synonym ('der, 'key) genCert =
  "('der, 'key) hostMap \<Rightarrow> ('der, 'key) tls_Certificate outcome \<times> ('der, 'key) hostMap"

record ('der, 'key) ProxyCtx =
  certStore :: "(string \<Rightarrow> ('der, 'key) genCert \<Rightarrow> ('der, 'key) genCert) option"

text \<open>
  \<^verbatim>\<open>hostname := stripPort(host)
  config := *defaultTLSConfig
  genCert := func() (*tls.Certificate, error) { return signHost(*ca, []string{hostname}) }
  if ctx.certStore != nil { cert, err = ctx.certStore.Fetch(hostname, genCert)
  } else { cert, err = genCert() }
  if err != nil { return nil, err }
  config.ServerName = hostname
  config.Certificates = append(config.Certificates, *cert)
  return &config, nil\<close>
\<close>

definition TLSConfigFromCA ::
  "('der, 'key, 'pub, 'rng) golib \<Rightarrow> ('der, 'key) tls_Config \<Rightarrow> ('der, 'key) tls_Certificate
     \<Rightarrow> string \<Rightarrow> ('der, 'key) ProxyCtx \<Rightarrow> ('der, 'key) hostMap
     \<Rightarrow> ('der, 'key) tls_Config option outcome \<times> ('der, 'key) hostMap" where
  "TLSConfigFromCA L defaultTLSConfig ca host ctx hostMap =
     (let hostname = stripPort host;
          config = defaultTLSConfig;
          genCert = signHost L ca [hostname]
      in case (case certStore ctx of
                 Some fetch \<Rightarrow> fetch hostname genCert hostMap
               | None \<Rightarrow> genCert hostMap) of
           (Panicked msg, hm) \<Rightarrow> (Panicked msg, hm)
         | (Returned cert (Some err), hm) \<Rightarrow> (Returned None (Some err), hm)
         | (Returned cert None, hm) \<Rightarrow>
             (Returned (Some (config\<lparr>ServerName := hostname,
                                     Certificates := Certificates config @ [cert]\<rparr>)) None, hm))"

section \<open>A concrete library for running the model\<close>

text \<open>
  To run \<open>signHost\<close> on concrete inputs the library parameters are instantiated with a
  symbolic library: a DER blob is the certificate it encodes with the public key and
  the signing key, a generated key records the stream it was drawn from, and
  \<open>ParseIP\<close> reads dotted-decimal IPv4 literals (into the 16-byte form Go returns).
\<close>

datatype sample_key = CaKey nat | GenKey nat string nat

datatype sample_der = SampleDer x509_Certificate sample_key "sample_key option" | SampleGarbage

definition sample_octet :: "string \<Rightarrow> int option" where
  "sample_octet s =
     (if s = [] \<or> 3 < length s \<or> (1 < length s \<and> hd s = CHR ''0'') then None
      else (case atoi_digits 0 s of
              Some v \<Rightarrow> if v \<le> 255 then Some v else None
            | None \<Rightarrow> None))"

definition sample_ParseIP :: "string \<Rightarrow> string option" where
  "sample_ParseIP s =
     (case map sample_octet (split_byte CHR ''.'' s) of
        [Some a, Some b, Some c, Some d] \<Rightarrow>
          Some (replicate 10 (char_of (0 :: int)) @ [char_of (255 :: int), char_of (255 :: int),
                  char_of a, char_of b, char_of c, char_of d])
      | _ \<Rightarrow> None)"

definition sample_lib :: "(sample_der, sample_key, sample_key, nat \<times> string \<times> nat) golib" where
  "sample_lib =
     \<lparr>x509_ParseCertificate =
        (\<lambda>d. case d of SampleDer c _ _ \<Rightarrow> Inr c
                     | SampleGarbage \<Rightarrow> Inl (Error ''x509: malformed certificate'')),
      net_ParseIP = sample_ParseIP,
      runtime_Version = ''go1.21.0'',
      NewCounterEncryptorRandFromKey =
        (\<lambda>k seed. case k of Some (CaKey n) \<Rightarrow> Inr (n, seed, 0)
                         | _ \<Rightarrow> Inl (Error ''only RSA and ECDSA keys supported'')),
      randutil_MaybeReadByte = False,
      rsa_GenerateKey =
        (\<lambda>readByte (n, seed, c) bits.
           (Inr (GenKey n seed (if readByte then c + 1 else c)),
            (n, seed, (if readByte then c + 1 else c) + bits))),
      rsa_PublicKey = (\<lambda>k. k),
      x509_CreateCertificate = (\<lambda>rng t parent pub priv. (Inr (SampleDer t pub priv), rng))\<rparr>"

definition sample_ca_x509 :: x509_Certificate where
  "sample_ca_x509 =
     \<lparr>SerialNumber = 1,
      Issuer = \<lparr>Organization = [''Sample CA''], CommonName = ''sample-ca''\<rparr>,
      Subject = \<lparr>Organization = [''Sample CA''], CommonName = ''sample-ca''\<rparr>,
      NotBefore = (0, 0), NotAfter = (4102444800, 0),
      KeyUsage = 0, ExtKeyUsage = [], BasicConstraintsValid = True,
      IPAddresses = [], DNSNames = []\<rparr>"

definition sample_ca :: "(sample_der, sample_key) tls_Certificate" where
  "sample_ca =
     \<lparr>Certificate = [SampleDer sample_ca_x509 (CaKey 7) (Some (CaKey 7))],
      PrivateKey = Some (CaKey 7)\<rparr>"

section \<open>WebSocket detection (websocket.go)\<close>

text \<open>
  \<open>strings.EqualFold\<close> (equality under Unicode case folding) and \<open>strings.TrimSpace\<close>
  (Unicode white space removed at both ends) rest on the Unicode tables; they are
  parameters of the model.
\<close>

record strings_unicode =
  strings_EqualFold :: "string \<Rightarrow> string \<Rightarrow> bool"
  strings_TrimSpace :: "string \<Rightarrow> string"

text \<open>
  \<open>http.Header\<close> is a \<open>map[string][]string\<close>; indexing it with a key it does not hold
  gives the \<open>nil\<close> slice. Of \<open>http.Request\<close> the fields the proxy core reads.
\<close>

type_synonym http_Header = "string \<rightharpoonup> string list"

record http_Request =
  Method :: string
  URL_Host :: string
  URL_Opaque :: string
  Host :: string
  Header :: http_Header

definition header_index :: "http_Header \<Rightarrow> string \<Rightarrow> string list" where
  "header_index header name = (case header name of None \<Rightarrow> [] | Some vs \<Rightarrow> vs)"

text \<open>
  \<^verbatim>\<open>func headerContains(header http.Header, name string, value string) bool {
      for _, v := range header[name] {
          for _, s := range strings.Split(v, ",") {
              if strings.EqualFold(value, strings.TrimSpace(s)) { return true } } }
      return false }\<close>
\<close>

fun headerContains_inner :: "strings_unicode \<Rightarrow> string \<Rightarrow> string list \<Rightarrow> bool" where
  "headerContains_inner U value [] = False"
| "headerContains_inner U value (s # ss) =
     (if strings_EqualFold U value (strings_TrimSpace U s) then True
      else headerContains_inner U value ss)"

fun headerContains_outer :: "strings_unicode \<Rightarrow> string \<Rightarrow> string list \<Rightarrow> bool" where
  "headerContains_outer U value [] = False"
| "headerContains_outer U value (v # vs) =
     (if headerContains_inner U value (strings_Split v '','') then True
      else headerContains_outer U value vs)"

definition headerContains :: "strings_unicode \<Rightarrow> http_Header \<Rightarrow> string \<Rightarrow> string \<Rightarrow> bool" where
  "headerContains U header name value = headerContains_outer U value (header_index header name)"

text \<open>
  \<^verbatim>\<open>func isWebSocketRequest(r *http.Request) bool {
      if strings.Contains(r.Method, "RDG") { return false }
      return headerContains(r.Header, "Connection", "upgrade") &&
          headerContains(r.Header, "Upgrade", "websocket") }\<close>
\<close>

definition isWebSocketRequest :: "strings_unicode \<Rightarrow> http_Request \<Rightarrow> bool" where
  "isWebSocketRequest U r =
     (if strings_Contains (Method r) ''RDG'' then False
      else headerContains U (Header r) ''Connection'' ''upgrade'' \<and>
           headerContains U (Header r) ''Upgrade'' ''websocket'')"

text \<open>
  The two library functions on ASCII input, for running the model: letters \<open>A-Z\<close>
  folded to lower case, and the ASCII white space \<open>\t \n \v \f \r\<close> and space trimmed.
\<close>

definition ascii_lower :: "char \<Rightarrow> char" where
  "ascii_lower c =
     (case map_of (zip ''ABCDEFGHIJKLMNOPQRSTUVWXYZ'' ''abcdefghijklmnopqrstuvwxyz'') c of
        Some l \<Rightarrow> l
      | None \<Rightarrow> c)"

definition ascii_space :: "char \<Rightarrow> bool" where
  "ascii_space c = (c = CHR '' '' \<or> (CHR 0x09 \<le> c \<and> c \<le> CHR 0x0D))"

definition ascii_unicode :: strings_unicode where
  "ascii_unicode =
     \<lparr>strings_EqualFold = (\<lambda>s t. map ascii_lower s = map ascii_lower t),
      strings_TrimSpace = (\<lambda>s. rev (dropWhile ascii_space (rev (dropWhile ascii_space s))))\<rparr>"

definition sample_upgrade_request :: http_Request where
  "sample_upgrade_request =
     \<lparr>Method = ''GET'', URL_Host = ''example.com:443'', URL_Opaque = [], Host = ''example.com'',
      Header = [''Connection'' \<mapsto> [''keep-alive, Upgrade''], ''Upgrade'' \<mapsto> [''WebSocket'']]\<rparr>"

text \<open>
  What the specification says of a header: its values are split on commas and each
  piece is trimmed; the header contains a token when a piece equals it up to case.
\<close>

definition header_tokens :: "strings_unicode \<Rightarrow> http_Header \<Rightarrow> string \<Rightarrow> string list" where
  "header_tokens U header name =
     concat (map (\<lambda>v. map (strings_TrimSpace U) (split_byte CHR '','' v)) (header_index header name))"

definition header_has_token :: "strings_unicode \<Rightarrow> http_Header \<Rightarrow> string \<Rightarrow> string \<Rightarrow> bool" where
  "header_has_token U header name tok =
     (\<exists>t \<in> set (header_tokens U header name). strings_EqualFold U tok t)"

section \<open>The serial number as the specification words it\<close>

text \<open>
  The specification builds the hash from the sorted host names followed by the
  hard-coded version tag and the runtime version tag: the hosts are sorted, then the
  two tags are appended. Each element is written with the comma \<open>hashSorted\<close> puts
  after it.
\<close>

definition serial_sorted_then_tagged :: "string list \<Rightarrow> string \<Rightarrow> int" where
  "serial_sorted_then_tagged hosts runtime =
     big_SetBytes (sha1_Sum
       (concat (map (\<lambda>s. s @ '','') (sort hosts @ [goproxySignerVersion, '':'' @ runtime]))))"

section \<open>Connections\<close>

text \<open>
  A connection the proxy writes to (\<open>net.Conn\<close>, \<open>io.WriteCloser\<close>): the bytes written
  so far, whether it has been closed, and how many more writes will succeed (\<open>None\<close>:
  all of them). A write either appends all its bytes or fails and appends none.
\<close>

record net_Conn =
  sent :: string
  closed :: bool
  writes_left :: "nat option"

definition conn_Write :: "net_Conn \<Rightarrow> string \<Rightarrow> error option \<times> net_Conn" where
  "conn_Write c s =
     (if closed c then (Some (Error ''use of closed network connection''), c)
      else (case writes_left c of
              None \<Rightarrow> (None, c\<lparr>sent := sent c @ s\<rparr>)
            | Some 0 \<Rightarrow> (Some (Error ''write: broken pipe''), c)
            | Some (Suc n) \<Rightarrow> (None, c\<lparr>sent := sent c @ s, writes_left := Some n\<rparr>)))"

definition conn_Close :: "net_Conn \<Rightarrow> error option \<times> net_Conn" where
  "conn_Close c =
     (if closed c then (Some (Error ''use of closed network connection''), c)
      else (None, c\<lparr>closed := True\<rparr>))"

definition CRLF :: string where
  "CRLF = [CHR 0x0D, CHR 0x0A]"

text \<open>\<open>ctx.Warnf\<close>: the warning is appended to the log.\<close>

definition warn_if :: "string list \<Rightarrow> string \<Rightarrow> error option \<Rightarrow> string list" where
  "warn_if log what e = (case e of None \<Rightarrow> log | Some err \<Rightarrow> log @ [what @ error_msg err])"

text \<open>
  \<^verbatim>\<open>func httpError(w io.WriteCloser, ctx *ProxyCtx, err error) {
      msg := fmt.Sprintf("HTTP/1.1 500 Server error\r\n\r\n%v\r\n", err)
      if _, err := io.WriteString(w, msg); err != nil {
          ctx.Warnf("Error responding to client: %s", err) }
      if err := w.Close(); err != nil {
          ctx.Warnf("Error closing client connection: %s", err) } }\<close>
\<close>

definition httpError :: "net_Conn \<Rightarrow> string list \<Rightarrow> error \<Rightarrow> net_Conn \<times> string list" where
  "httpError w log err =
     (let msg = ''HTTP/1.1 500 Server error'' @ CRLF @ CRLF @ error_msg err @ CRLF;
          (e1, w1) = conn_Write w msg;
          log1 = warn_if log ''Error responding to client: '' e1;
          (e2, w2) = conn_Close w1;
          log2 = warn_if log1 ''Error closing client connection: '' e2
      in (w2, log2))"

section \<open>The CONNECT dispatcher (https.go)\<close>

datatype ConnectActionLiteral =
  ConnectAccept | ConnectReject | ConnectMitm | ConnectHijack | ConnectHTTPMitm
| ConnectProxyAuthHijack

text \<open>
  \<open>ConnectAction\<close>: the action and the optional TLS configuration factory. The
  \<open>Hijack\<close> callback is called with the client connection and is not looked into.
\<close>

record 'cfg ConnectAction =
  Action :: ConnectActionLiteral
  TLSConfig :: "(string \<Rightarrow> error + 'cfg) option"

text \<open>
  What \<open>handleHttps\<close> reads of the proxy: the CONNECT handlers (each gives an action or
  \<open>nil\<close>, and a host), \<open>proxy.connectDial\<close>, and two globals defined outside the three
  files, the regular expression \<open>hasPort\<close> and the factory behind \<open>OkConnect\<close>.
\<close>

record ('t, 'cfg) ProxyHttpServer =
  httpsHandlers :: "(string \<Rightarrow> 'cfg ConnectAction option \<times> string) list"
  connectDial :: "string \<Rightarrow> string \<Rightarrow> error + 't"
  hasPort_MatchString :: "string \<Rightarrow> bool"
  GoproxyCa_TLSConfig :: "string \<Rightarrow> error + 'cfg"
  defaultTLS :: 'cfg

definition OkConnect :: "('t, 'cfg) ProxyHttpServer \<Rightarrow> 'cfg ConnectAction" where
  "OkConnect proxy = \<lparr>Action = ConnectAccept, TLSConfig = Some (GoproxyCa_TLSConfig proxy)\<rparr>"

text \<open>
  Lines 92-102:
  \<^verbatim>\<open>todo, host := OkConnect, r.URL.Host
  for i, h := range proxy.httpsHandlers {
      newtodo, newhost := h.HandleConnect(host, ctx)
      if newtodo != nil { todo, host = newtodo, newhost; break } }\<close>
\<close>

fun run_handlers ::
  "(string \<Rightarrow> 'cfg ConnectAction option \<times> string) list \<Rightarrow> 'cfg ConnectAction \<Rightarrow> string
     \<Rightarrow> 'cfg ConnectAction \<times> string" where
  "run_handlers [] todo host = (todo, host)"
| "run_handlers (h # hs) todo host =
     (case h host of
        (Some newtodo, newhost) \<Rightarrow> (newtodo, newhost)
      | (None, _) \<Rightarrow> run_handlers hs todo host)"

text \<open>
  Where \<open>handleHttps\<close> leaves the client connection: it has returned and nothing runs
  on it, or it has started the two copiers of the blind tunnel, or it has passed the
  connection to the hijack callback, or it has entered one of the two MITM loops.
\<close>

datatype ('t, 'cfg) hand_off =
  Done
| Splice string 't
| Hijacked string
| HTTPMitmLoop string 't
| TLSMitmTask string 'cfg

record ('t, 'cfg) https_result =
  client :: net_Conn
  warnings :: "string list"
  dialed :: "(string \<times> string) list"
  next_step :: "('t, 'cfg) hand_off"

text \<open>
  \<open>handleHttps\<close> up to the hand-off (lines 78-195 and 392-402). \<open>hij\<close> is what hijacking
  the response writer gives: \<open>None\<close> when it is no \<open>http.Hijacker\<close>. \<open>ctxResp\<close> is the
  wire form of \<open>ctx.Resp\<close>, when a handler has set one.
\<close>

definition handleHttps ::
  "('t, 'cfg) ProxyHttpServer \<Rightarrow> http_Request \<Rightarrow> (error + net_Conn) option \<Rightarrow> string option
     \<Rightarrow> ('t, 'cfg) https_result outcome" where
  "handleHttps proxy r hij ctxResp =
     (case hij of
        None \<Rightarrow> Panicked ''httpserver does not support hijacking''
      | Some (Inl e) \<Rightarrow> Panicked (''Cannot hijack connection '' @ error_msg e)
      | Some (Inr proxyClient) \<Rightarrow>
     (case run_handlers (httpsHandlers proxy) (OkConnect proxy) (URL_Host r) of (todo, host) \<Rightarrow>
     (case Action todo of
        ConnectAccept \<Rightarrow>
          (let host = (if \<not> hasPort_MatchString proxy host then host @ '':80'' else host) in
           case connectDial proxy ''tcp'' host of
             Inl err \<Rightarrow>
               (case httpError proxyClient [] err of (c, log) \<Rightarrow>
                  Returned \<lparr>client = c, warnings = log, dialed = [(''tcp'', host)],
                            next_step = Done\<rparr> None)
           | Inr targetSiteCon \<Rightarrow>
               (case conn_Write proxyClient (''HTTP/1.1 200 OK'' @ CRLF @ CRLF) of (_, c) \<Rightarrow>
                  Returned \<lparr>client = c, warnings = [], dialed = [(''tcp'', host)],
                            next_step = Splice host targetSiteCon\<rparr> None))
      | ConnectHijack \<Rightarrow>
          (case conn_Write proxyClient (''HTTP/1.0 200 OK'' @ CRLF @ CRLF) of (_, c) \<Rightarrow>
             Returned \<lparr>client = c, warnings = [], dialed = [], next_step = Hijacked host\<rparr> None)
      | ConnectHTTPMitm \<Rightarrow>
          (case conn_Write proxyClient (''HTTP/1.0 200 OK'' @ CRLF @ CRLF) of (_, c) \<Rightarrow>
             (case connectDial proxy ''tcp'' host of
                Inl err \<Rightarrow>
                  Returned \<lparr>client = c,
                            warnings = [''Error dialing to '' @ host @ '': '' @ error_msg err],
                            dialed = [(''tcp'', host)], next_step = Done\<rparr> None
              | Inr targetSiteCon \<Rightarrow>
                  Returned \<lparr>client = c, warnings = [], dialed = [(''tcp'', host)],
                            next_step = HTTPMitmLoop host targetSiteCon\<rparr> None))
      | ConnectMitm \<Rightarrow>
          (case conn_Write proxyClient (''HTTP/1.0 200 OK'' @ CRLF @ CRLF) of (_, c) \<Rightarrow>
             (case TLSConfig todo of
                None \<Rightarrow>
                  Returned \<lparr>client = c, warnings = [], dialed = [],
                            next_step = TLSMitmTask host (defaultTLS proxy)\<rparr> None
              | Some factory \<Rightarrow>
                  (case factory host of
                     Inl err \<Rightarrow>
                       (case httpError c [] err of (c', log) \<Rightarrow>
                          Returned \<lparr>client = c', warnings = log, dialed = [],
                                    next_step = Done\<rparr> None)
                   | Inr tlsConfig \<Rightarrow>
                       Returned \<lparr>client = c, warnings = [], dialed = [],
                                 next_step = TLSMitmTask host tlsConfig\<rparr> None)))
      | ConnectProxyAuthHijack \<Rightarrow>
          (case conn_Write proxyClient (''HTTP/1.1 407 Proxy Authentication Required'' @ CRLF) of
             (_, c) \<Rightarrow>
               Returned \<lparr>client = c, warnings = [], dialed = [], next_step = Hijacked host\<rparr> None)
      | ConnectReject \<Rightarrow>
          (case (case ctxResp of
                   None \<Rightarrow> (proxyClient, [])
                 | Some wire \<Rightarrow>
                     (case conn_Write proxyClient wire of (e, c) \<Rightarrow>
                        (c, warn_if [] ''Cannot write response that reject http CONNECT: '' e))) of
             (c, log) \<Rightarrow>
               Returned \<lparr>client = snd (conn_Close c), warnings = log, dialed = [],
                         next_step = Done\<rparr> None))))"

text \<open>A connection on which the next write succeeds.\<close>

definition writable :: "net_Conn \<Rightarrow> bool" where
  "writable c = (\<not> closed c \<and> writes_left c \<noteq> Some 0)"

text \<open>A proxy without handlers, for running the dispatcher: the dial reaches \<open>up.example:80\<close> only.\<close>

definition sample_proxy :: "(nat, unit) ProxyHttpServer" where
  "sample_proxy =
     \<lparr>httpsHandlers = [],
      connectDial = (\<lambda>network addr. if addr = ''up.example:80'' then Inr 1
                                      else Inl (Error (''dial tcp '' @ addr @ '': connection refused''))),
      hasPort_MatchString = (\<lambda>h. CHR '':'' \<in> set h),
      GoproxyCa_TLSConfig = (\<lambda>h. Inr ()),
      defaultTLS = ()\<rparr>"

definition fresh_conn :: net_Conn where
  "fresh_conn = \<lparr>sent = [], closed = False, writes_left = None\<rparr>"

section \<open>Responses and their bodies\<close>

text \<open>
  A response body is read piece by piece: each \<open>Read\<close> gives some bytes or fails, and
  after the last piece \<open>Read\<close> gives \<open>io.EOF\<close>. Of \<open>http.Response\<close> the fields the
  proxy core reads.
\<close>

datatype read_event = Data string | ReadError error

type_synonym body = "read_event list"

record http_Response =
  Status :: string
  StatusCode :: int
  Proto :: string
  ResponseHeader :: http_Header
  Body :: body

text \<open>\<open>ioutil.ReadAll\<close>: the bytes up to the end of the body, or up to the first failing read.\<close>

fun io_ReadAll :: "body \<Rightarrow> string \<Rightarrow> string \<times> error option" where
  "io_ReadAll [] acc = (acc, None)"
| "io_ReadAll (Data d # rest) acc = io_ReadAll rest (acc @ d)"
| "io_ReadAll (ReadError e # rest) acc = (acc, Some e)"

text \<open>
  \<open>io.LimitReader(r, n)\<close>: reads of \<open>r\<close>, cut to the \<open>n\<close> bytes still allowed; once they
  are used up it gives \<open>io.EOF\<close> without reading \<open>r\<close>.
\<close>

fun io_LimitReader :: "nat \<Rightarrow> body \<Rightarrow> body" where
  "io_LimitReader n [] = []"
| "io_LimitReader n (Data d # rest) =
     (if n = 0 then []
      else if n \<le> length d then [Data (take n d)]
      else Data d # io_LimitReader (n - length d) rest)"
| "io_LimitReader n (ReadError e # rest) = (if n = 0 then [] else [ReadError e])"

section \<open>The upstream proxy dialer (https.go)\<close>

text \<open>
  The dialer talks to the chained proxy through library calls, parameters of the
  model: \<open>url.Parse\<close>, \<open>proxy.dial\<close>, \<open>tls.Client\<close>, and \<open>http.ReadResponse\<close> on the
  connection after the CONNECT request has been written to it.
\<close>

record url_URL =
  Scheme :: string
  URLHost :: string

record 'c upstream =
  url_Parse :: "string \<Rightarrow> error + url_URL"
  proxy_dial :: "string \<Rightarrow> string \<Rightarrow> error + 'c"
  tls_Client :: "'c \<Rightarrow> 'c"
  http_ReadResponse :: "'c \<Rightarrow> http_Request \<Rightarrow> error + http_Response"

text \<open>
  What a dial function gives back, \<open>(net.Conn, error)\<close>, and the connections it has
  closed on the way.
\<close>

record 'c dial_result =
  dial_conn :: "'c option"
  dial_err :: "error option"
  closed_conns :: "'c list"

definition connectReq_for ::
  "(http_Request \<Rightarrow> http_Request) option \<Rightarrow> string \<Rightarrow> http_Request" where
  "connectReq_for connectReqHandler addr =
     (let connectReq = \<lparr>Method = ''CONNECT'', URL_Host = [], URL_Opaque = addr, Host = addr,
                         Header = Map.empty\<rparr>
      in case connectReqHandler of None \<Rightarrow> connectReq | Some h \<Rightarrow> h connectReq)"

text \<open>
  Lines 498-532, the dial function for an \<open>http\<close> proxy:
  \<^verbatim>\<open>c, err := proxy.dial(network, u.Host)
  if err != nil { return nil, err }
  connectReq.Write(c)
  br := bufio.NewReader(c)
  resp, err := http.ReadResponse(br, connectReq)
  if err != nil { c.Close(); return nil, err }
  defer resp.Body.Close()
  if resp.StatusCode != 200 {
      resp, err := ioutil.ReadAll(resp.Body)
      if err != nil { return nil, err }
      c.Close()
      return nil, errors.New("proxy refused connection" + string(resp)) }
  return c, nil\<close>
\<close>

definition connectDial_http ::
  "'c upstream \<Rightarrow> (http_Request \<Rightarrow> http_Request) option \<Rightarrow> string \<Rightarrow> string \<Rightarrow> string
     \<Rightarrow> 'c dial_result" where
  "connectDial_http E connectReqHandler uHost network addr =
     (let connectReq = connectReq_for connectReqHandler addr in
      case proxy_dial E network uHost of
        Inl err \<Rightarrow> \<lparr>dial_conn = None, dial_err = Some err, closed_conns = []\<rparr>
      | Inr c \<Rightarrow>
          (case http_ReadResponse E c connectReq of
             Inl err \<Rightarrow> \<lparr>dial_conn = None, dial_err = Some err, closed_conns = [c]\<rparr>
           | Inr resp \<Rightarrow>
               (if StatusCode resp \<noteq> 200 then
                  (case io_ReadAll (Body resp) [] of
                     (_, Some err) \<Rightarrow>
                       \<lparr>dial_conn = None, dial_err = Some err, closed_conns = []\<rparr>
                   | (body, None) \<Rightarrow>
                       \<lparr>dial_conn = None,
                        dial_err = Some (Error (''proxy refused connection'' @ body)),
                        closed_conns = [c]\<rparr>)
                else \<lparr>dial_conn = Some c, dial_err = None, closed_conns = []\<rparr>)))"

text \<open>
  Lines 538-573, the dial function for an \<open>https\<close> or \<open>wss\<close> proxy: the connection
  is wrapped by \<open>tls.Client\<close> before the request is written, and the body of a
  refusal is read through \<open>io.LimitReader(resp.Body, 500)\<close>.
\<close>

definition connectDial_https ::
  "'c upstream \<Rightarrow> (http_Request \<Rightarrow> http_Request) option \<Rightarrow> string \<Rightarrow> string \<Rightarrow> string
     \<Rightarrow> 'c dial_result" where
  "connectDial_https E connectReqHandler uHost network addr =
     (case proxy_dial E network uHost of
        Inl err \<Rightarrow> \<lparr>dial_conn = None, dial_err = Some err, closed_conns = []\<rparr>
      | Inr c0 \<Rightarrow>
          (let c = tls_Client E c0;
               connectReq = connectReq_for connectReqHandler addr in
           case http_ReadResponse E c connectReq of
             Inl err \<Rightarrow> \<lparr>dial_conn = None, dial_err = Some err, closed_conns = [c]\<rparr>
           | Inr resp \<Rightarrow>
               (if StatusCode resp \<noteq> 200 then
                  (case io_ReadAll (io_LimitReader 500 (Body resp)) [] of
                     (_, Some err) \<Rightarrow>
                       \<lparr>dial_conn = None, dial_err = Some err, closed_conns = []\<rparr>
                   | (body, None) \<Rightarrow>
                       \<lparr>dial_conn = None,
                        dial_err = Some (Error (''proxy refused connection'' @ body)),
                        closed_conns = [c]\<rparr>)
                else \<lparr>dial_conn = Some c, dial_err = None, closed_conns = []\<rparr>)))"

text \<open>
  \<open>NewConnectDialToProxyWithHandler\<close> (lines 489-576): the dial function for the
  proxy URL, or \<open>nil\<close>.
\<close>

definition NewConnectDialToProxyWithHandler ::
  "'c upstream \<Rightarrow> string \<Rightarrow> (http_Request \<Rightarrow> http_Request) option
     \<Rightarrow> (string \<Rightarrow> string \<Rightarrow> 'c dial_result) option" where
  "NewConnectDialToProxyWithHandler E https_proxy connectReqHandler =
     (case url_Parse E https_proxy of
        Inl err \<Rightarrow> None
      | Inr u \<Rightarrow>
          (if Scheme u = [] \<or> Scheme u = ''http'' then
             Some (connectDial_http E connectReqHandler
                     (if strings_IndexRune (URLHost u) CHR '':'' = -1 then URLHost u @ '':80''
                      else URLHost u))
           else if Scheme u = ''https'' \<or> Scheme u = ''wss'' then
             Some (connectDial_https E connectReqHandler
                     (if strings_IndexRune (URLHost u) CHR '':'' = -1 then URLHost u @ '':443''
                      else URLHost u))
           else None))"

text \<open>
  A chained proxy for running the dialer: it answers every CONNECT with the given
  response.
\<close>

definition sample_upstream :: "http_Response \<Rightarrow> nat upstream" where
  "sample_upstream resp =
     \<lparr>url_Parse = (\<lambda>s. if s = ''http://proxy.example'' then
                           Inr \<lparr>Scheme = ''http'', URLHost = ''proxy.example''\<rparr>
                         else if s = ''https://proxy.example'' then
                           Inr \<lparr>Scheme = ''https'', URLHost = ''proxy.example''\<rparr>
                         else Inl (Error ''parse error'')),
      proxy_dial = (\<lambda>network addr. Inr 1),
      tls_Client = (\<lambda>c. c + 100),
      http_ReadResponse = (\<lambda>c req. Inr resp)\<rparr>"

definition sample_refusal :: "body \<Rightarrow> http_Response" where
  "sample_refusal b =
     \<lparr>Status = ''407 Proxy Authentication Required'', StatusCode = 407, Proto = ''HTTP/1.1'',
      ResponseHeader = Map.empty, Body = b\<rparr>"

section \<open>Writing a response to the MITM client (https.go)\<close>

text \<open>\<open>strconv.Itoa\<close> and \<open>strconv.FormatInt(n, 16)\<close>: digits in base 10 and 16.\<close>

definition digit_char :: "nat \<Rightarrow> char" where
  "digit_char d = ''0123456789abcdef'' ! d"

function format_nat :: "nat \<Rightarrow> nat \<Rightarrow> string" where
  "format_nat b n =
     (if b < 2 \<or> n < b then [digit_char n] else format_nat b (n div b) @ [digit_char (n mod b)])"
  by pat_completeness auto
termination
  by (relation "measure snd") auto

declare format_nat.simps [simp del]

definition strconv_Itoa :: "int \<Rightarrow> string" where
  "strconv_Itoa i = (if i < 0 then CHR ''-'' # format_nat 10 (nat (- i)) else format_nat 10 (nat i))"

definition strconv_FormatInt16 :: "nat \<Rightarrow> string" where
  "strconv_FormatInt16 n = format_nat 16 n"

text \<open>
  Modelled from the spec: the chunked writer (\<open>newChunkedWriter\<close>, defined in a file
  that is not among the sources). Section 4.6, step 7, has the body "framed as chunked":
  each non-empty write is one chunk of the HTTP/1.1 chunked transfer coding - the
  length in hexadecimal, CRLF, the bytes, CRLF - an empty write is nothing, and closing
  the writer writes the last chunk, \<open>0\<close> CRLF.
\<close>

definition chunkedWriter_Write :: "net_Conn \<Rightarrow> string \<Rightarrow> (nat \<times> error option) \<times> net_Conn" where
  "chunkedWriter_Write wire d =
     (if d = [] then ((0, None), wire)
      else (case conn_Write wire (strconv_FormatInt16 (length d) @ CRLF) of
              (Some err, w1) \<Rightarrow> ((0, Some err), w1)
            | (None, w1) \<Rightarrow>
                (case conn_Write w1 d of
                   (Some err, w2) \<Rightarrow> ((0, Some err), w2)
                 | (None, w2) \<Rightarrow>
                     (case conn_Write w2 CRLF of (e, w3) \<Rightarrow> ((length d, e), w3)))))"

definition chunkedWriter_Close :: "net_Conn \<Rightarrow> error option \<times> net_Conn" where
  "chunkedWriter_Close wire = conn_Write wire (''0'' @ CRLF)"

text \<open>
  \<open>io.Copy(chunked, resp.Body)\<close>: every piece read is written to the chunked writer,
  until the body ends, a read fails or a write fails; it gives the number of bytes
  written and the error, and leaves the unread rest of the body.
\<close>

fun io_Copy :: "net_Conn \<Rightarrow> body \<Rightarrow> nat \<Rightarrow> (nat \<times> error option) \<times> net_Conn \<times> body" where
  "io_Copy wire [] written = ((written, None), wire, [])"
| "io_Copy wire (Data d # rest) written =
     (case chunkedWriter_Write wire d of
        ((nw, Some err), w1) \<Rightarrow> ((written + nw, Some err), w1, rest)
      | ((nw, None), w1) \<Rightarrow> io_Copy w1 rest (written + nw))"
| "io_Copy wire (ReadError err # rest) written = ((written, Some err), wire, rest)"

lemma io_Copy_rest:
  "io_Copy wire b written = ((written', e), wire', rest) \<Longrightarrow>
     length rest \<le> length b \<and> (written < written' \<longrightarrow> length rest < length b)"
proof (induction b arbitrary: wire written)
  case Nil
  then show ?case by simp
next
  case (Cons ev b)
  show ?case
  proof (cases ev)
    case (Data d)
    obtain nw e1 w1 where cw: "chunkedWriter_Write wire d = ((nw, e1), w1)"
      by (metis prod.exhaust)
    show ?thesis
    proof (cases e1)
      case None
      with Cons.prems Data cw have "io_Copy w1 b (written + nw) = ((written', e), wire', rest)"
        by simp
      from Cons.IH [OF this] show ?thesis by simp
    next
      case (Some err)
      with Cons.prems Data cw show ?thesis by auto
    qed
  next
    case (ReadError err)
    with Cons.prems show ?thesis by auto
  qed
qed

text \<open>
  Lines 375-380:
  \<^verbatim>\<open>var written int64 = 1
  for written > 0 { written, _ = io.Copy(chunked, resp.Body) }\<close>
\<close>

function mitm_copy_body :: "net_Conn \<Rightarrow> body \<Rightarrow> net_Conn \<times> body" where
  "mitm_copy_body wire b =
     (case io_Copy wire b 0 of
        ((written, _), w1, rest) \<Rightarrow> if 0 < written then mitm_copy_body w1 rest else (w1, rest))"
  by pat_completeness auto
termination
proof (relation "measure (\<lambda>(wire, b). length b)")
  show "wf (measure (\<lambda>(wire, b). length b))" by simp
next
  fix wire :: net_Conn and b :: body and x y xa ya xb yaa
  assume "(x, y) = io_Copy wire b 0" "(xa, ya) = x" "(xb, yaa) = y" "0 < xa"
  then have "io_Copy wire b 0 = ((xa, ya), xb, yaa)" by simp
  from io_Copy_rest [OF this] \<open>0 < xa\<close>
  show "((xb, yaa), wire, b) \<in> measure (\<lambda>(wire, b). length b)" by simp
qed

declare mitm_copy_body.simps [simp del]

text \<open>
  \<open>Header.Del\<close> and \<open>Header.Set\<close> for a key in canonical form, as the two keys used
  here are. \<open>Header.Write\<close> puts the header on the wire in a number of writes; what
  it writes for a header is a parameter of the model.
\<close>

definition Header_Del :: "http_Header \<Rightarrow> string \<Rightarrow> http_Header" where
  "Header_Del h key = h(key := None)"

definition Header_Set :: "http_Header \<Rightarrow> string \<Rightarrow> string \<Rightarrow> http_Header" where
  "Header_Set h key v = h(key \<mapsto> [v])"

fun conn_WriteAll :: "net_Conn \<Rightarrow> string list \<Rightarrow> error option \<times> net_Conn" where
  "conn_WriteAll c [] = (None, c)"
| "conn_WriteAll c (s # ss) =
     (case conn_Write c s of
        (Some err, c1) \<Rightarrow> (Some err, c1)
      | (None, c1) \<Rightarrow> conn_WriteAll c1 ss)"

text \<open>
  Lines 349-388 of the per-request loop, for the response \<open>resp\<close> the filters have
  left: the connection and the log afterwards, and whether the loop goes on to the next
  request (\<open>False\<close>: the task has returned).
  \<^verbatim>\<open>text := resp.Status
  statusCode := strconv.Itoa(resp.StatusCode) + " "
  if strings.HasPrefix(text, statusCode) { text = text[len(statusCode):] }
  if _, err := io.WriteString(rawClientTls, "HTTP/1.1"+" "+statusCode+text+"\r\n"); err != nil {
      ctx.Warnf(...); return }
  resp.Header.Del("Content-Length")
  resp.Header.Set("Transfer-Encoding", "chunked")
  if err := resp.Header.Write(rawClientTls); err != nil { ctx.Warnf(...); return }
  if _, err = io.WriteString(rawClientTls, "\r\n"); err != nil { ctx.Warnf(...); return }
  chunked := newChunkedWriter(rawClientTls)
  var written int64 = 1
  for written > 0 { written, _ = io.Copy(chunked, resp.Body) }
  if err := chunked.Close(); err != nil { ctx.Warnf(...); return }
  if _, err = io.WriteString(rawClientTls, "\r\n"); err != nil { ctx.Warnf(...); return }\<close>
\<close>

definition mitm_status_text :: "http_Response \<Rightarrow> string" where
  "mitm_status_text resp =
     (let text = Status resp;
          statusCode = strconv_Itoa (StatusCode resp) @ '' ''
      in if strings_HasPrefix text statusCode then drop (length statusCode) text else text)"

definition mitm_header :: "http_Response \<Rightarrow> http_Header" where
  "mitm_header resp =
     Header_Set (Header_Del (ResponseHeader resp) ''Content-Length'') ''Transfer-Encoding'' ''chunked''"

definition mitm_write_response ::
  "(http_Header \<Rightarrow> string list) \<Rightarrow> net_Conn \<Rightarrow> string list \<Rightarrow> http_Response
     \<Rightarrow> net_Conn \<times> string list \<times> bool" where
  "mitm_write_response Header_Write rawClientTls log resp =
     (let text = mitm_status_text resp;
          statusCode = strconv_Itoa (StatusCode resp) @ '' ''
      in
      case conn_Write rawClientTls (''HTTP/1.1'' @ '' '' @ statusCode @ text @ CRLF) of
        (Some err, c1) \<Rightarrow>
          (c1, log @ [''Cannot write TLS response HTTP status from mitm client: '' @ error_msg err],
           False)
      | (None, c1) \<Rightarrow>
     (case conn_WriteAll c1 (Header_Write (mitm_header resp)) of
        (Some err, c2) \<Rightarrow>
          (c2, log @ [''Cannot write TLS response header from mitm client: '' @ error_msg err],
           False)
      | (None, c2) \<Rightarrow>
     (case conn_Write c2 CRLF of
        (Some err, c3) \<Rightarrow>
          (c3, log @ [''Cannot write TLS response header end from mitm client: '' @ error_msg err],
           False)
      | (None, c3) \<Rightarrow>
     (case mitm_copy_body c3 (Body resp) of (c4, rest) \<Rightarrow>
     (case chunkedWriter_Close c4 of
        (Some err, c5) \<Rightarrow>
          (c5, log @ [''Cannot write TLS chunked EOF from mitm client: '' @ error_msg err], False)
      | (None, c5) \<Rightarrow>
     (case conn_Write c5 CRLF of
        (Some err, c6) \<Rightarrow>
          (c6, log @ [''Cannot write TLS response chunked trailer from mitm client: ''
                       @ error_msg err], False)
      | (None, c6) \<Rightarrow> (c6, log, True)))))))"

text \<open>One chunk of the chunked transfer coding, and the pieces of a body.\<close>

definition chunk_frame :: "string \<Rightarrow> string" where
  "chunk_frame d = strconv_FormatInt16 (length d) @ CRLF @ d @ CRLF"

fun body_pieces :: "body \<Rightarrow> string list" where
  "body_pieces [] = []"
| "body_pieces (Data d # rest) = d # body_pieces rest"
| "body_pieces (ReadError e # rest) = body_pieces rest"

text \<open>
  The pieces a body gives before its first failing read, and what is left of the body
  after that read.
\<close>

fun lead_pieces :: "body \<Rightarrow> string list" where
  "lead_pieces [] = []"
| "lead_pieces (Data d # rest) = d # lead_pieces rest"
| "lead_pieces (ReadError e # rest) = []"

fun after_error :: "body \<Rightarrow> body" where
  "after_error [] = []"
| "after_error (Data d # rest) = after_error rest"
| "after_error (ReadError e # rest) = rest"

text \<open>A connection on which every write succeeds.\<close>

definition unfailing :: "net_Conn \<Rightarrow> bool" where
  "unfailing c = (\<not> closed c \<and> writes_left c = None)"

definition sample_response :: http_Response where
  "sample_response =
     \<lparr>Status = ''200 OK'', StatusCode = 200, Proto = ''HTTP/1.0'',
      ResponseHeader = [''Content-Length'' \<mapsto> [''2''], ''Content-Type'' \<mapsto> [''text/plain'']],
      Body = [Data ''hi'']\<rparr>"

definition sample_Header_Write :: "http_Header \<Rightarrow> string list" where
  "sample_Header_Write h =
     concat (map (\<lambda>k. case h k of
                        None \<Rightarrow> []
                      | Some vs \<Rightarrow> map (\<lambda>v. k @ '': '' @ v @ CRLF) vs)
               [''Content-Length'', ''Content-Type'', ''Transfer-Encoding''])"

section \<open>Properties of the signer\<close>

subsection \<open>Auxiliary facts\<close>

lemma time_Parse_end: "time_Parse ''2006-01-02'' ''2049-12-31'' = Inr (time_Date 2049 12 31)"
  by (simp add: time_Parse_def days_in_def)

lemma time_Date_end: "time_Date 2049 12 31 = (2524521600, 0)"
  by (simp add: time_Date_def days_from_civil_def)

lemma signHost_hosts_DNSNames:
  "DNSNames (signHost_hosts L hs t) = DNSNames t @ filter (\<lambda>h. net_ParseIP L h = None) hs"
  by (induction hs arbitrary: t) (auto split: option.splits)

lemma signHost_hosts_IPAddresses:
  "IPAddresses (signHost_hosts L hs t) = IPAddresses t @ List.map_filter (net_ParseIP L) hs"
  by (induction hs arbitrary: t) (auto simp: List.map_filter_simps split: option.splits)

lemma signHost_hosts_CommonName:
  "CommonName (Subject (signHost_hosts L hs t)) =
     (if filter (\<lambda>h. net_ParseIP L h = None) hs = [] then CommonName (Subject t)
      else last (filter (\<lambda>h. net_ParseIP L h = None) hs))"
  by (induction hs arbitrary: t) (auto split: option.splits)

lemma signHost_hosts_fixed:
  "SerialNumber (signHost_hosts L hs t) = SerialNumber t"
  "Issuer (signHost_hosts L hs t) = Issuer t"
  "Organization (Subject (signHost_hosts L hs t)) = Organization (Subject t)"
  "NotBefore (signHost_hosts L hs t) = NotBefore t"
  "NotAfter (signHost_hosts L hs t) = NotAfter t"
  "KeyUsage (signHost_hosts L hs t) = KeyUsage t"
  "ExtKeyUsage (signHost_hosts L hs t) = ExtKeyUsage t"
  "BasicConstraintsValid (signHost_hosts L hs t) = BasicConstraintsValid t"
  by (induction hs arbitrary: t; simp split: option.splits)+

lemma signHost_minted:
  assumes miss: "signHost_cache hostMap hosts = None"
    and ret: "signHost L ca hosts hostMap = (Returned cert None, hm)"
  shows "\<exists>ca0 rest x509ca csprng certpriv csprng1 der csprng2.
           Certificate ca = ca0 # rest \<and>
           x509_ParseCertificate L ca0 = Inr x509ca \<and>
           NewCounterEncryptorRandFromKey L (PrivateKey ca)
             (hashSorted (hosts @ [goproxySignerVersion, '':'' @ runtime_Version L])) = Inr csprng \<and>
           rsa_GenerateKey L (randutil_MaybeReadByte L) csprng 2048 = (Inr certpriv, csprng1) \<and>
           x509_CreateCertificate L csprng1
             (signHost_template L x509ca hosts (time_Date 2049 12 31)
                (hashSorted (hosts @ [goproxySignerVersion, '':'' @ runtime_Version L])))
             x509ca (rsa_PublicKey L certpriv) (PrivateKey ca) = (Inr der, csprng2) \<and>
           cert = \<lparr>Certificate = [der, ca0], PrivateKey = Some certpriv\<rparr> \<and>
           hm = Some (signHost_store hosts cert (case hostMap of None \<Rightarrow> Map.empty | Some m \<Rightarrow> m))"
  using ret unfolding signHost_def miss time_Parse_end
  by (auto simp: Let_def split: list.splits sum.splits prod.splits)

lemma KeyUsage_value: "x509_KeyUsageKeyEncipherment OR x509_KeyUsageDigitalSignature = 5"
  by (simp add: x509_KeyUsageKeyEncipherment_def x509_KeyUsageDigitalSignature_def)

lemmas sample_run =
  signHost_def signHost_cache_def time_Parse_end sample_lib_def sample_ca_def Let_def

lemma sample_ParseIP_names:
  "sample_ParseIP ''a.com'' = None" "sample_ParseIP ''b.com'' = None"
  "sample_ParseIP ''c.com'' = None" "sample_ParseIP ''['' = None"
  by (simp_all add: sample_ParseIP_def sample_octet_def)

subsection \<open>The cache (C1)\<close>

text \<open>
  C1. Claimed: whenever \<open>signHost\<close> answers from its cache, every queried host is among
  the SAN entries of the certificate it returns. The code breaks this, as its FIXME
  says: the cache is looked up under \<open>hosts[0]\<close> only and filled under every host of
  the list. After a certificate is minted for \<open>a.com, b.com\<close>, the query \<open>b.com, c.com\<close>
  is answered from the cache with that very certificate, whose SAN entries are \<open>a.com\<close>
  and \<open>b.com\<close> and do not include \<open>c.com\<close>.
\<close>

theorem signHost_cache_mismatch:
  "(case signHost sample_lib sample_ca [''a.com'', ''b.com''] None of
      (first, hostMap) \<Rightarrow>
        (case signHost sample_lib sample_ca [''b.com'', ''c.com''] hostMap of
           (Returned cert None, _) \<Rightarrow>
             first = Returned cert None \<and>
             (case Certificate cert of
                SampleDer leaf _ _ # _ \<Rightarrow>
                  DNSNames leaf = [''a.com'', ''b.com''] \<and> IPAddresses leaf = [] \<and>
                  ''c.com'' \<notin> set (DNSNames leaf)
              | _ \<Rightarrow> False)
         | _ \<Rightarrow> False))"
  by (simp add: sample_run signHost_template_def signHost_hosts_DNSNames
      signHost_hosts_IPAddresses List.map_filter_simps sample_ParseIP_names)

subsection \<open>Determinism (C2)\<close>

text \<open>
  C2. Claimed: with the cache out of the way, two evaluations of \<open>signHost(CA, hosts)\<close>
  give the same leaf DER and the same private key. The code aims at this - the only
  stream it hands to \<open>rsa.GenerateKey\<close> and \<open>x509.CreateCertificate\<close> is the one
  \<open>NewCounterEncryptorRandFromKey\<close> seeds with the CA's private key and the hash of the
  host list - and misses it: \<open>rsa.GenerateKey\<close> reads one more byte of the stream or
  not, as the runtime chooses in the call, so the key is drawn at one of two places of
  the stream. Two runs with a \<open>nil\<close> cache, the same CA and the host \<open>a.com\<close>, which
  differ in that choice only, return different private keys and different leaves.
\<close>

theorem signHost_two_runs_differ:
  "(case (fst (signHost (sample_lib\<lparr>randutil_MaybeReadByte := False\<rparr>) sample_ca [''a.com''] None),
          fst (signHost (sample_lib\<lparr>randutil_MaybeReadByte := True\<rparr>) sample_ca [''a.com''] None)) of
      (Returned cert1 None, Returned cert2 None) \<Rightarrow>
        PrivateKey cert1 \<noteq> PrivateKey cert2 \<and>
        hd (Certificate cert1) \<noteq> hd (Certificate cert2) \<and>
        tl (Certificate cert1) = tl (Certificate cert2)
    | _ \<Rightarrow> False)"
  by (simp add: sample_run)

subsection \<open>The template (C4)\<close>

text \<open>
  C4. For a non-empty host list, the template that \<open>signHost\<close> hands to
  \<open>x509.CreateCertificate\<close> for the leaf it returns has \<open>NotBefore\<close> the Unix epoch,
  \<open>NotAfter\<close> 2049-12-31, the fixed organization, key usage
  \<open>KeyEncipherment|DigitalSignature\<close>, extended key usage \<open>[ServerAuth]\<close> and valid
  basic constraints; the hosts that parse as IP literals are its \<open>IPAddresses\<close>, the
  others its \<open>DNSNames\<close>, both in the order of the list, and the common name is the
  last host that is not an IP literal (empty when there is none).
\<close>

theorem signHost_template_fields:
  assumes nonempty: "hosts \<noteq> []"
    and miss: "signHost_cache hostMap hosts = None"
    and ret: "signHost L ca hosts hostMap = (Returned cert None, hm)"
  shows "\<exists>csprng template x509ca pub csprng'.
           x509_ParseCertificate L (hd (Certificate ca)) = Inr x509ca \<and>
           template = signHost_template L x509ca hosts (time_Date 2049 12 31)
             (hashSorted (hosts @ [goproxySignerVersion, '':'' @ runtime_Version L])) \<and>
           x509_CreateCertificate L csprng template x509ca pub (PrivateKey ca)
             = (Inr (hd (Certificate cert)), csprng') \<and>
           NotBefore template = (0, 0) \<and>
           NotAfter template = time_Date 2049 12 31 \<and>
           Organization (Subject template) = [''GoProxy untrusted MITM proxy Inc''] \<and>
           KeyUsage template = x509_KeyUsageKeyEncipherment OR x509_KeyUsageDigitalSignature \<and>
           ExtKeyUsage template = [ExtKeyUsageServerAuth] \<and>
           BasicConstraintsValid template \<and>
           IPAddresses template = List.map_filter (net_ParseIP L) hosts \<and>
           DNSNames template = filter (\<lambda>h. net_ParseIP L h = None) hosts \<and>
           CommonName (Subject template) =
             (if DNSNames template = [] then [] else last (DNSNames template))"
proof -
  from signHost_minted [OF miss ret] obtain ca0 rest x509ca csprng certpriv csprng1 der csprng2
    where ca: "Certificate ca = ca0 # rest" and parse: "x509_ParseCertificate L ca0 = Inr x509ca"
      and cr: "x509_CreateCertificate L csprng1
             (signHost_template L x509ca hosts (time_Date 2049 12 31)
                (hashSorted (hosts @ [goproxySignerVersion, '':'' @ runtime_Version L])))
             x509ca (rsa_PublicKey L certpriv) (PrivateKey ca) = (Inr der, csprng2)"
      and cert: "cert = \<lparr>Certificate = [der, ca0], PrivateKey = Some certpriv\<rparr>"
    by blast
  define t where "t = signHost_template L x509ca hosts (time_Date 2049 12 31)
                (hashSorted (hosts @ [goproxySignerVersion, '':'' @ runtime_Version L]))"
  have "NotBefore t = (0, 0)" "NotAfter t = time_Date 2049 12 31"
    "Organization (Subject t) = [''GoProxy untrusted MITM proxy Inc'']"
    "KeyUsage t = x509_KeyUsageKeyEncipherment OR x509_KeyUsageDigitalSignature"
    "ExtKeyUsage t = [ExtKeyUsageServerAuth]" "BasicConstraintsValid t"
    "IPAddresses t = List.map_filter (net_ParseIP L) hosts"
    "DNSNames t = filter (\<lambda>h. net_ParseIP L h = None) hosts"
    "CommonName (Subject t) = (if DNSNames t = [] then [] else last (DNSNames t))"
    by (simp_all add: t_def signHost_template_def Let_def signHost_hosts_fixed time_Unix_def
        signHost_hosts_IPAddresses signHost_hosts_DNSNames signHost_hosts_CommonName)
  moreover from cr cert have "x509_CreateCertificate L csprng1 t x509ca (rsa_PublicKey L certpriv)
      (PrivateKey ca) = (Inr (hd (Certificate cert)), csprng2)"
    by (simp add: t_def)
  moreover from ca parse have "x509_ParseCertificate L (hd (Certificate ca)) = Inr x509ca"
    by simp
  moreover note t_def
  ultimately show ?thesis by blast
qed

theorem signHost_template_fields_witness:
  "\<exists>cert hm.
     [''a.com'', ''10.0.0.1''] \<noteq> [] \<and>
     signHost_cache (None :: (sample_der, sample_key) hostMap) [''a.com'', ''10.0.0.1''] = None \<and>
     signHost sample_lib sample_ca [''a.com'', ''10.0.0.1''] None = (Returned cert None, hm) \<and>
     (\<exists>csprng template x509ca pub csprng'.
           x509_ParseCertificate sample_lib (hd (Certificate sample_ca)) = Inr x509ca \<and>
           template = signHost_template sample_lib x509ca [''a.com'', ''10.0.0.1'']
             (time_Date 2049 12 31)
             (hashSorted ([''a.com'', ''10.0.0.1'']
                @ [goproxySignerVersion, '':'' @ runtime_Version sample_lib])) \<and>
           x509_CreateCertificate sample_lib csprng template x509ca pub (PrivateKey sample_ca)
             = (Inr (hd (Certificate cert)), csprng') \<and>
           NotBefore template = (0, 0) \<and>
           NotAfter template = time_Date 2049 12 31 \<and>
           Organization (Subject template) = [''GoProxy untrusted MITM proxy Inc''] \<and>
           KeyUsage template = x509_KeyUsageKeyEncipherment OR x509_KeyUsageDigitalSignature \<and>
           ExtKeyUsage template = [ExtKeyUsageServerAuth] \<and>
           BasicConstraintsValid template \<and>
           IPAddresses template = List.map_filter (net_ParseIP sample_lib) [''a.com'', ''10.0.0.1''] \<and>
           DNSNames template = filter (\<lambda>h. net_ParseIP sample_lib h = None) [''a.com'', ''10.0.0.1''] \<and>
           CommonName (Subject template) =
             (if DNSNames template = [] then [] else last (DNSNames template)))"
proof -
  have miss: "signHost_cache (None :: (sample_der, sample_key) hostMap) [''a.com'', ''10.0.0.1''] = None"
    by (simp add: signHost_cache_def)
  obtain cert hm where
    ret: "signHost sample_lib sample_ca [''a.com'', ''10.0.0.1''] None = (Returned cert None, hm)"
    by (simp add: sample_run)
  have ne: "[''a.com'', ''10.0.0.1''] \<noteq> []"
    by simp
  note concl = signHost_template_fields [OF ne miss ret]
  show ?thesis
    by (rule exI [of _ cert], rule exI [of _ hm]) (intro conjI ne miss ret concl)
qed

subsection \<open>The empty host list (C5)\<close>

text \<open>
  C5. With an empty host list \<open>signHost\<close> returns the zero-value certificate and a
  \<open>nil\<close> error when the cache map exists (\<open>hostMap != nil\<close>): the length check stands
  inside that guard. With the \<open>nil\<close> map the call goes on to parse the CA and mint, and
  whatever it returns is not the zero-value certificate with a \<open>nil\<close> error.
\<close>

theorem signHost_empty_hosts:
  "signHost L ca [] (Some m) = (Returned zero_Certificate None, Some m) \<and>
   fst (signHost L ca [] None) \<noteq> Returned zero_Certificate None"
  by (auto simp: signHost_def signHost_cache_def zero_Certificate_def Let_def
      split: list.splits sum.splits prod.splits)

text \<open>
  With the \<open>nil\<close> cache a process starts with, the empty host list is not answered with
  the zero value: the sample CA signs a leaf without SAN entries.
\<close>

theorem signHost_empty_hosts_nil_cache:
  "fst (signHost sample_lib sample_ca [] None) \<noteq> Returned zero_Certificate None"
  by (simp add: sample_run zero_Certificate_def)

section \<open>Properties of the TLS configuration factory\<close>

lemma strings_IndexByte_conv:
  "strings_IndexByte s c =
     (if c \<in> set s then int (length (takeWhile (\<lambda>x. x \<noteq> c) s)) else -1)"
  by (induction s) (auto simp: Let_def)

lemma stripPort_takeWhile: "stripPort s = takeWhile (\<lambda>c. c \<noteq> CHR '':'') s"
proof (cases "CHR '':'' \<in> set s")
  case True
  then show ?thesis
    by (simp add: stripPort_def strings_IndexRune_def strings_IndexByte_conv
        takeWhile_eq_take [symmetric])
next
  case False
  then have "takeWhile (\<lambda>c. c \<noteq> CHR '':'') s = s"
    by (intro takeWhile_eq_all_conv [THEN iffD2]) auto
  moreover from False have "stripPort s = s"
    by (simp add: stripPort_def strings_IndexRune_def strings_IndexByte_conv)
  ultimately show ?thesis
    by (simp only:)
qed


text \<open>
  C10. \<open>stripPort s\<close> is the part of \<open>s\<close> before its first \<open>':'\<close>, and \<open>s\<close> itself when
  \<open>s\<close> has none: \<open>stripPort "a.b:443" = "a.b"\<close> and \<open>stripPort "a.b" = "a.b"\<close>. For the
  bracketed IPv6 host \<open>"[::1]:443"\<close> it gives \<open>"["\<close>, so \<open>TLSConfigFromCA\<close> treats that
  host as it treats \<open>"["\<close>: without a certificate store it calls \<open>signHost\<close> for the one
  name \<open>"["\<close> and sets \<open>ServerName\<close> to \<open>"["\<close>.
\<close>

theorem stripPort_first_colon:
  "(CHR '':'' \<notin> set s \<longrightarrow> stripPort s = s) \<and>
   (CHR '':'' \<in> set s \<longrightarrow> (\<exists>rest. s = stripPort s @ CHR '':'' # rest)) \<and>
   CHR '':'' \<notin> set (stripPort s) \<and>
   stripPort ''a.b:443'' = ''a.b'' \<and>
   stripPort ''a.b'' = ''a.b'' \<and>
   stripPort ''[::1]:443'' = ''['' \<and>
   TLSConfigFromCA L defaultTLSConfig ca ''[::1]:443'' ctx hostMap =
     TLSConfigFromCA L defaultTLSConfig ca ''['' ctx hostMap \<and>
   (certStore ctx = None \<longrightarrow>
      TLSConfigFromCA L defaultTLSConfig ca ''[::1]:443'' ctx hostMap =
        (case signHost L ca [''[''] hostMap of
           (Panicked msg, hm) \<Rightarrow> (Panicked msg, hm)
         | (Returned cert (Some err), hm) \<Rightarrow> (Returned None (Some err), hm)
         | (Returned cert None, hm) \<Rightarrow>
             (Returned (Some (defaultTLSConfig\<lparr>ServerName := ''['',
                 Certificates := Certificates defaultTLSConfig @ [cert]\<rparr>)) None, hm)))"
proof -
  have a: "CHR '':'' \<notin> set s \<longrightarrow> stripPort s = s"
    by (auto simp: stripPort_takeWhile takeWhile_eq_all_conv)
  have b: "CHR '':'' \<in> set s \<longrightarrow> (\<exists>rest. s = stripPort s @ CHR '':'' # rest)"
  proof
    assume "CHR '':'' \<in> set s"
    then have "dropWhile (\<lambda>c. c \<noteq> CHR '':'') s \<noteq> []"
      by (auto simp: dropWhile_eq_Nil_conv)
    then obtain x rest where d: "dropWhile (\<lambda>c. c \<noteq> CHR '':'') s = x # rest"
      by (cases "dropWhile (\<lambda>c. c \<noteq> CHR '':'') s") auto
    then have "x = CHR '':''"
      using hd_dropWhile [of "\<lambda>c. c \<noteq> CHR '':''" s] by auto
    with d have "s = stripPort s @ CHR '':'' # rest"
      using takeWhile_dropWhile_id [of "\<lambda>c. c \<noteq> CHR '':''" s]
      by (simp add: stripPort_takeWhile)
    then show "\<exists>rest. s = stripPort s @ CHR '':'' # rest" ..
  qed
  have c: "CHR '':'' \<notin> set (stripPort s)"
    by (auto simp: stripPort_takeWhile dest: set_takeWhileD)
  have d: "stripPort ''a.b:443'' = ''a.b''" "stripPort ''a.b'' = ''a.b''"
    "stripPort ''[::1]:443'' = ''[''" "stripPort ''['' = ''[''"
    by (simp_all add: stripPort_takeWhile)
  have e: "TLSConfigFromCA L defaultTLSConfig ca ''[::1]:443'' ctx hostMap =
     TLSConfigFromCA L defaultTLSConfig ca ''['' ctx hostMap"
    by (simp only: TLSConfigFromCA_def d)
  have f: "certStore ctx = None \<longrightarrow>
      TLSConfigFromCA L defaultTLSConfig ca ''[::1]:443'' ctx hostMap =
        (case signHost L ca [''[''] hostMap of
           (Panicked msg, hm) \<Rightarrow> (Panicked msg, hm)
         | (Returned cert (Some err), hm) \<Rightarrow> (Returned None (Some err), hm)
         | (Returned cert None, hm) \<Rightarrow>
             (Returned (Some (defaultTLSConfig\<lparr>ServerName := ''['',
                 Certificates := Certificates defaultTLSConfig @ [cert]\<rparr>)) None, hm))"
    by (simp add: TLSConfigFromCA_def d Let_def)
  from a b c d(1-3) e f show ?thesis by blast
qed

theorem stripPort_first_colon_witness:
  "CHR '':'' \<notin> set ''a.b'' \<and> stripPort ''a.b'' = ''a.b'' \<and>
   CHR '':'' \<in> set ''a.b:443'' \<and> (\<exists>rest. ''a.b:443'' = stripPort ''a.b:443'' @ CHR '':'' # rest) \<and>
   certStore \<lparr>certStore = None\<rparr> = None \<and>
   (case fst (TLSConfigFromCA sample_lib \<lparr>ServerName = [], Certificates = []\<rparr> sample_ca
           ''[::1]:443'' \<lparr>certStore = None\<rparr> None) of
      Returned (Some config) None \<Rightarrow>
        ServerName config = ''['' \<and>
        Returned (last (Certificates config)) None = fst (signHost sample_lib sample_ca [''[''] None)
    | _ \<Rightarrow> False)"
proof -
  have 1: "CHR '':'' \<notin> set ''a.b''" and 2: "CHR '':'' \<in> set ''a.b:443''"
    and 3: "certStore \<lparr>certStore = None\<rparr> = None"
    by simp_all
  have 4: "\<exists>cert hm. signHost sample_lib sample_ca [''[''] None = (Returned cert None, hm)"
    by (simp add: signHost_def signHost_cache_def sample_lib_def sample_ca_def Let_def
        time_Parse_def days_in_def)
  note T = stripPort_first_colon [of "''a.b''" sample_lib "\<lparr>ServerName = [], Certificates = []\<rparr>"
      sample_ca "\<lparr>certStore = None\<rparr>" None]
  from T 1 have 5: "stripPort ''a.b'' = ''a.b''"
    by blast
  from T 3 have 6: "TLSConfigFromCA sample_lib \<lparr>ServerName = [], Certificates = []\<rparr> sample_ca
           ''[::1]:443'' \<lparr>certStore = None\<rparr> None =
        (case signHost sample_lib sample_ca [''[''] None of
           (Panicked msg, hm) \<Rightarrow> (Panicked msg, hm)
         | (Returned cert (Some err), hm) \<Rightarrow> (Returned None (Some err), hm)
         | (Returned cert None, hm) \<Rightarrow>
             (Returned (Some (\<lparr>ServerName = [], Certificates = []\<rparr>\<lparr>ServerName := ''['',
                 Certificates := Certificates \<lparr>ServerName = [], Certificates = []\<rparr> @ [cert]\<rparr>)) None, hm))"
    by blast
  from stripPort_first_colon [of "''a.b:443''"] 2
  have 7: "\<exists>rest. ''a.b:443'' = stripPort ''a.b:443'' @ CHR '':'' # rest"
    by blast
  from 4 obtain cert hm where r: "signHost sample_lib sample_ca [''[''] None = (Returned cert None, hm)"
    by blast
  have 8: "(case fst (TLSConfigFromCA sample_lib \<lparr>ServerName = [], Certificates = []\<rparr> sample_ca
           ''[::1]:443'' \<lparr>certStore = None\<rparr> None) of
      Returned (Some config) None \<Rightarrow>
        ServerName config = ''['' \<and>
        Returned (last (Certificates config)) None = fst (signHost sample_lib sample_ca [''[''] None)
    | _ \<Rightarrow> False)"
    by (simp add: 6 r)
  from 1 2 3 5 7 8 show ?thesis by blast
qed

section \<open>Properties of the WebSocket detection\<close>

lemma strings_Index_single_Cons:
  "strings_Index (x # xs) [c] =
     (if x = c then 0 else (let i = strings_Index xs [c] in if i = -1 then -1 else i + 1))"
  by (simp add: strings_HasPrefix_def)

lemma strings_Split_single: "strings_Split s [c] = split_byte c s"
proof (induction s)
  case Nil
  show ?case by (simp add: strings_Split.simps [of "[]"])
next
  case (Cons x xs)
  show ?case
  proof (cases "x = c")
    case True
    then have "strings_Split (x # xs) [c] = [] # strings_Split xs [c]"
      by (subst strings_Split.simps) (simp add: strings_HasPrefix_def)
    with Cons True show ?thesis by simp
  next
    case False
    show ?thesis
    proof (cases "strings_Index xs [c] < 0")
      case True
      with strings_Index_ge [of xs "[c]"] have m: "strings_Index xs [c] = -1" by simp
      then have "strings_Split xs [c] = [xs]"
        by (subst strings_Split.simps) simp
      moreover from m False have "strings_Split (x # xs) [c] = [x # xs]"
        by (subst strings_Split.simps) (simp add: strings_HasPrefix_def)
      ultimately show ?thesis using Cons False by simp
    next
      case nneg: False
      define i where "i = nat (strings_Index xs [c])"
      from nneg have ix: "strings_Index xs [c] = int i" by (simp add: i_def)
      have "strings_Split xs [c] = take i xs # strings_Split (drop (i + 1) xs) [c]"
        by (subst strings_Split.simps) (simp add: ix)
      moreover from False have "strings_Split (x # xs) [c] =
          (x # take i xs) # strings_Split (drop (i + 1) xs) [c]"
        by (subst strings_Split.simps) (simp add: strings_HasPrefix_def ix nat_add_distrib)
      ultimately show ?thesis using Cons False by simp
    qed
  qed
qed

lemma strings_Index_occurs: "0 \<le> strings_Index (pre @ sub @ suf) sub"
proof (induction pre)
  case Nil
  have pre: "strings_HasPrefix (sub @ suf) sub"
    by (simp add: strings_HasPrefix_def)
  show ?case
  proof (cases "sub @ suf")
    case Nil
    then show ?thesis by simp
  next
    case (Cons a list)
    with pre have "strings_HasPrefix (a # list) sub" by simp
    with Cons show ?thesis by simp
  qed
next
  case (Cons x pre)
  then show ?case by (simp add: Let_def)
qed

lemma strings_Contains_iff: "strings_Contains s sub \<longleftrightarrow> (\<exists>pre suf. s = pre @ sub @ suf)"
proof
  assume "strings_Contains s sub"
  then have ge: "0 \<le> strings_Index s sub" by (simp add: strings_Contains_def)
  define i where "i = nat (strings_Index s sub)"
  from strings_Index_found [OF ge]
  have "take (length sub) (drop i s) = sub" by (simp add: i_def)
  then have "s = take i s @ sub @ drop (length sub) (drop i s)"
    by (metis append_take_drop_id)
  then show "\<exists>pre suf. s = pre @ sub @ suf" by blast
next
  assume "\<exists>pre suf. s = pre @ sub @ suf"
  then show "strings_Contains s sub"
    by (auto simp: strings_Contains_def strings_Index_occurs)
qed

lemma headerContains_inner_iff:
  "headerContains_inner U value ss \<longleftrightarrow>
     (\<exists>s \<in> set ss. strings_EqualFold U value (strings_TrimSpace U s))"
  by (induction ss) auto

lemma headerContains_outer_iff:
  "headerContains_outer U value vs \<longleftrightarrow>
     (\<exists>v \<in> set vs. \<exists>s \<in> set (split_byte CHR '','' v).
        strings_EqualFold U value (strings_TrimSpace U s))"
  by (induction vs) (auto simp: headerContains_inner_iff strings_Split_single)

lemma headerContains_iff:
  "headerContains U header name value \<longleftrightarrow> header_has_token U header name value"
  by (auto simp: headerContains_def headerContains_outer_iff header_has_token_def
      header_tokens_def)


lemma ascii_eval:
  "strings_EqualFold ascii_unicode s t = (map ascii_lower s = map ascii_lower t)"
  "strings_TrimSpace ascii_unicode s = rev (dropWhile ascii_space (rev (dropWhile ascii_space s)))"
  by (simp_all add: ascii_unicode_def)


text \<open>
  C6. \<open>isWebSocketRequest r\<close> holds exactly when the \<open>Connection\<close> header of \<open>r\<close>
  contains the token \<open>upgrade\<close> and its \<open>Upgrade\<close> header contains the token
  \<open>websocket\<close> - the header values split on commas, the pieces trimmed and compared up
  to case - and the method of \<open>r\<close> does not contain \<open>RDG\<close>.
\<close>

theorem isWebSocketRequest_iff:
  "isWebSocketRequest U r \<longleftrightarrow>
     header_has_token U (Header r) ''Connection'' ''upgrade'' \<and>
     header_has_token U (Header r) ''Upgrade'' ''websocket'' \<and>
     \<not> (\<exists>pre suf. Method r = pre @ ''RDG'' @ suf)"
  unfolding isWebSocketRequest_def headerContains_iff strings_Contains_iff by auto

theorem isWebSocketRequest_iff_witness:
  "isWebSocketRequest ascii_unicode sample_upgrade_request \<and>
   \<not> isWebSocketRequest ascii_unicode (sample_upgrade_request\<lparr>Method := ''RDG_OUT_DATA''\<rparr>) \<and>
   \<not> isWebSocketRequest ascii_unicode (sample_upgrade_request\<lparr>Header := [''Upgrade'' \<mapsto> [''websocket'']]\<rparr>)"
proof -
  have 1: "header_has_token ascii_unicode (Header sample_upgrade_request) ''Connection'' ''upgrade''"
    by (simp add: header_has_token_def header_tokens_def header_index_def sample_upgrade_request_def
        ascii_eval ascii_lower_def ascii_space_def less_eq_char_def)
  have 2: "header_has_token ascii_unicode (Header sample_upgrade_request) ''Upgrade'' ''websocket''"
    by (simp add: header_has_token_def header_tokens_def header_index_def sample_upgrade_request_def
        ascii_eval ascii_lower_def ascii_space_def less_eq_char_def)
  have "\<not> strings_Contains (Method sample_upgrade_request) ''RDG''"
    by (simp add: strings_Contains_def strings_HasPrefix_def sample_upgrade_request_def)
  then have 3: "\<not> (\<exists>pre suf. Method sample_upgrade_request = pre @ ''RDG'' @ suf)"
    unfolding strings_Contains_iff .
  have 4: "\<exists>pre suf. Method (sample_upgrade_request\<lparr>Method := ''RDG_OUT_DATA''\<rparr>) = pre @ ''RDG'' @ suf"
  proof (intro exI)
    show "Method (sample_upgrade_request\<lparr>Method := ''RDG_OUT_DATA''\<rparr>) = [] @ ''RDG'' @ ''_OUT_DATA''"
      by simp
  qed
  have 5: "\<not> header_has_token ascii_unicode
      (Header (sample_upgrade_request\<lparr>Header := [''Upgrade'' \<mapsto> [''websocket'']]\<rparr>))
      ''Connection'' ''upgrade''"
    by (simp add: header_has_token_def header_tokens_def header_index_def)
  have a: "isWebSocketRequest ascii_unicode sample_upgrade_request"
    by (rule isWebSocketRequest_iff [THEN iffD2]) (intro conjI 1 2 3)
  have b: "\<not> isWebSocketRequest ascii_unicode (sample_upgrade_request\<lparr>Method := ''RDG_OUT_DATA''\<rparr>)"
  proof
    assume "isWebSocketRequest ascii_unicode (sample_upgrade_request\<lparr>Method := ''RDG_OUT_DATA''\<rparr>)"
    from isWebSocketRequest_iff [THEN iffD1, OF this] 4 show False
      by (elim conjE notE)
  qed
  have c: "\<not> isWebSocketRequest ascii_unicode
      (sample_upgrade_request\<lparr>Header := [''Upgrade'' \<mapsto> [''websocket'']]\<rparr>)"
  proof
    assume "isWebSocketRequest ascii_unicode
      (sample_upgrade_request\<lparr>Header := [''Upgrade'' \<mapsto> [''websocket'']]\<rparr>)"
    from isWebSocketRequest_iff [THEN iffD1, OF this] 5 show False
      by (elim conjE notE)
  qed
  from a b c show ?thesis by (intro conjI)
qed

section \<open>The serial number\<close>

subsection \<open>Two SHA-1 digests\<close>

text \<open>
  The digests of \<open>":go1.21.0,:goroxy1,a.com,"\<close> and \<open>"a.com,:goroxy1,:go1.21.0,"\<close>,
  computed in stages: the sixteen words of the padded block, the message schedule, the
  eighty rounds.
\<close>

lemma sha1_pad_25:
  "length m = 25 \<Longrightarrow>
     sha1_pad m = m @ [char_of (128::int)] @ replicate 30 (char_of (0::int)) @ be_bytes 8 200"
  by (simp add: sha1_pad_def)

lemma sha1_blocks_one: "length p = 64 \<Longrightarrow> sha1_blocks s p = sha1_block s p"
  by (subst sha1_blocks.simps, simp, subst sha1_blocks.simps, simp)

lemma code_hash_words:
  "be_words (sha1_pad '':go1.21.0,:goroxy1,a.com,'') =
    [979857201, 775041326, 808204903, 1869770616, 2033265761, 778268525, 746586112, 0, 0,
     0, 0, 0, 0, 0, 0, 200]"
  by (simp add: sha1_pad_25 be_bytes_def upt_rec [of 0] upt_rec [of "Suc _"] eval_nat_numeral)

lemma code_hash_schedule:
  "sha1_extend 64
    [200, 0, 0, 0, 0, 0, 0, 0, 0, 746586112, 778268525, 2033265761, 1869770616, 808204903,
     775041326, 979857201] =
    [4253333620, 2793755039, 748164194, 2691481928, 1761662901, 1812828872, 1980114665,
     2046859055, 3938050263, 1738128476, 2020346302, 1348264378, 289774693, 3676857941,
     2712816476, 1797284826, 2510632697, 3069944060, 2542315454, 3231123211, 1213056814,
     3338684653, 895820634, 1766615326, 96470130, 4248734633, 1968619846, 3023419171,
     3734612864, 184875549, 232656264, 3226469712, 39556493, 777951657, 4224274425,
     1329958485, 1748659952, 2717996108, 2187884924, 597796053, 921065963, 771347240,
     4236283052, 3044576100, 1000747724, 2426419115, 2441073885, 685825583, 1777453477,
     4195102499, 3398743737, 1790843409, 3868071896, 2650332791, 456928403, 3628621470,
     1556497063, 253668069, 2024965603, 2925732251, 2869908850, 2453286300, 2189474988,
     345418412, 200, 0, 0, 0, 0, 0, 0, 0, 0, 746586112, 778268525, 2033265761, 1869770616,
     808204903, 775041326, 979857201]"
  by (simp add: rotl32_def eval_nat_numeral)

lemma code_hash_rounds:
  "sha1_rounds 0 (1732584193, 4023233417, 2562383102, 271733878, 3285377520)
    [979857201, 775041326, 808204903, 1869770616, 2033265761, 778268525, 746586112, 0, 0,
     0, 0, 0, 0, 0, 0, 200, 345418412, 2189474988, 2453286300, 2869908850, 2925732251,
     2024965603, 253668069, 1556497063, 3628621470, 456928403, 2650332791, 3868071896,
     1790843409, 3398743737, 4195102499, 1777453477, 685825583, 2441073885, 2426419115,
     1000747724, 3044576100, 4236283052, 771347240, 921065963, 597796053, 2187884924,
     2717996108, 1748659952, 1329958485, 4224274425, 777951657, 39556493, 3226469712,
     232656264, 184875549, 3734612864, 3023419171, 1968619846, 4248734633, 96470130,
     1766615326, 895820634, 3338684653, 1213056814, 3231123211, 2542315454, 3069944060,
     2510632697, 1797284826, 2712816476, 3676857941, 289774693, 1348264378, 2020346302,
     1738128476, 3938050263, 2046859055, 1980114665, 1812828872, 1761662901, 2691481928,
     748164194, 2793755039, 4253333620] =
    (3041307790, 1181516481, 4238553446, 3161968727, 3076147134)"
  by (simp add: rotl32_def add32_def sha1_f_def sha1_k_def not32_def)

lemma code_hash_digest:
  "big_SetBytes (sha1_Sum '':go1.21.0,:goroxy1,a.com,'') = 162969626141310011250590864462645296389293943214"
proof -
  have "sha1_block sha1_init (sha1_pad '':go1.21.0,:goroxy1,a.com,'') =
      (478924687, 909782602, 2505969252, 3433702605, 2066557358)"
    unfolding sha1_init_def sha1_block.simps code_hash_words rev.simps append.simps code_hash_schedule
      code_hash_rounds
    by (simp add: add32_def)
  moreover have "length (sha1_pad '':go1.21.0,:goroxy1,a.com,'') = 64"
    by (simp add: sha1_pad_25 be_bytes_def)
  ultimately have "sha1_Sum '':go1.21.0,:goroxy1,a.com,'' =
      sha1_out (478924687, 909782602, 2505969252, 3433702605, 2066557358)"
    by (simp add: sha1_Sum_def sha1_blocks_one)
  then show ?thesis
    by (simp add: big_SetBytes_def be_bytes_def upt_rec [of 0] upt_rec [of "Suc _"] eval_nat_numeral)
qed

lemma spec_hash_words:
  "be_words (sha1_pad ''a.com,:goroxy1,:go1.21.0,'') =
    [1630430063, 1831615079, 1869770616, 2033265722, 1735340334, 842083888, 746586112, 0,
     0, 0, 0, 0, 0, 0, 0, 200]"
  by (simp add: sha1_pad_25 be_bytes_def upt_rec [of 0] upt_rec [of "Suc _"] eval_nat_numeral)

lemma spec_hash_schedule:
  "sha1_extend 64
    [200, 0, 0, 0, 0, 0, 0, 0, 0, 746586112, 842083888, 1735340334, 2033265722,
     1869770616, 1831615079, 1630430063] =
    [3886929074, 2735759297, 3819928979, 339414395, 2097335383, 4259822235, 3634833260,
     343892899, 3775216066, 1863962856, 197191773, 1027201558, 2820709977, 2375448247,
     658353976, 2077039784, 2715120088, 3093180407, 2787483095, 3621606448, 2767914502,
     1170064904, 2156718688, 3213853484, 1826807119, 2558384886, 3266396673, 1979829493,
     3382122371, 1419919486, 3806004616, 1894699217, 151925787, 2420579290, 1561362169,
     220501847, 2037737813, 398125410, 1133888283, 4196579876, 2330678610, 4023147270,
     1644284629, 3140693923, 2404513936, 2413220581, 770613909, 2425585232, 782662301,
     1309262318, 4120208982, 809330429, 1012699208, 1054709243, 1605666902, 2975759468,
     2404677569, 132147345, 1142367768, 3349822248, 2943366216, 272284988, 674901178,
     481826862, 200, 0, 0, 0, 0, 0, 0, 0, 0, 746586112, 842083888, 1735340334, 2033265722,
     1869770616, 1831615079, 1630430063]"
  by (simp add: rotl32_def eval_nat_numeral)

lemma spec_hash_rounds:
  "sha1_rounds 0 (1732584193, 4023233417, 2562383102, 271733878, 3285377520)
    [1630430063, 1831615079, 1869770616, 2033265722, 1735340334, 842083888, 746586112, 0,
     0, 0, 0, 0, 0, 0, 0, 200, 481826862, 674901178, 272284988, 2943366216, 3349822248,
     1142367768, 132147345, 2404677569, 2975759468, 1605666902, 1054709243, 1012699208,
     809330429, 4120208982, 1309262318, 782662301, 2425585232, 770613909, 2413220581,
     2404513936, 3140693923, 1644284629, 4023147270, 2330678610, 4196579876, 1133888283,
     398125410, 2037737813, 220501847, 1561362169, 2420579290, 151925787, 1894699217,
     3806004616, 1419919486, 3382122371, 1979829493, 3266396673, 2558384886, 1826807119,
     3213853484, 2156718688, 1170064904, 2767914502, 3621606448, 2787483095, 3093180407,
     2715120088, 2077039784, 658353976, 2375448247, 2820709977, 1027201558, 197191773,
     1863962856, 3775216066, 343892899, 3634833260, 4259822235, 2097335383, 339414395,
     3819928979, 2735759297, 3886929074] =
    (3625043782, 192749458, 4237911234, 2129853615, 3166827506)"
  by (simp add: rotl32_def add32_def sha1_f_def sha1_k_def not32_def)

lemma spec_hash_digest:
  "big_SetBytes (sha1_Sum ''a.com,:goroxy1,:go1.21.0,'') = 361604691417956183325276869220540291445790397922"
proof -
  have "sha1_block sha1_init (sha1_pad ''a.com,:goroxy1,:go1.21.0,'') =
      (1062660679, 4215982875, 2505327040, 2401587493, 2157237730)"
    unfolding sha1_init_def sha1_block.simps spec_hash_words rev.simps append.simps spec_hash_schedule
      spec_hash_rounds
    by (simp add: add32_def)
  moreover have "length (sha1_pad ''a.com,:goroxy1,:go1.21.0,'') = 64"
    by (simp add: sha1_pad_25 be_bytes_def)
  ultimately have "sha1_Sum ''a.com,:goroxy1,:go1.21.0,'' =
      sha1_out (1062660679, 4215982875, 2505327040, 2401587493, 2157237730)"
    by (simp add: sha1_Sum_def sha1_blocks_one)
  then show ?thesis
    by (simp add: big_SetBytes_def be_bytes_def upt_rec [of 0] upt_rec [of "Suc _"] eval_nat_numeral)
qed

lemma hash_writes_concat: "hash_writes h c = h @ concat (map (\<lambda>s. s @ '','') c)"
  by (induction c arbitrary: h) simp_all

lemma big_SetBytes_snoc: "big_SetBytes (bs @ [b]) = big_SetBytes bs * 256 + of_char b"
  by (simp add: big_SetBytes_def)

lemma big_SetBytes_horner: "big_SetBytes bs = horner_sum of_char 256 (rev bs)"
  by (induction bs rule: rev_induct) (simp_all add: big_SetBytes_snoc, simp add: big_SetBytes_def)

lemma big_SetBytes_big_endian:
  "big_SetBytes bs = (\<Sum>n < length bs. of_char (rev bs ! n) * 256 ^ n)"
  by (simp add: big_SetBytes_horner horner_sum_eq_sum lessThan_atLeast0)

lemma sort_sample_tagged:
  "sort [''a.com'', '':goroxy1'', '':go1.21.0''] = ['':go1.21.0'', '':goroxy1'', ''a.com'']"
  by (simp add: less_eq_char_def less_char_def)


subsection \<open>The serial number of a minted certificate (C3)\<close>

text \<open>
  C3. The serial number of the template \<open>signHost\<close> hands to \<open>x509.CreateCertificate\<close>
  is the big-endian reading of \<open>H\<close>, where \<open>H\<close> is the SHA-1 digest of the host names
  and the two tags (the hard-coded version tag and \<open>":"\<close> with the runtime version)
  sorted together - the tags are appended to the hosts before \<open>hashSorted\<close> sorts the
  list - each element followed by a comma.
\<close>

theorem signHost_serial:
  assumes miss: "signHost_cache hostMap hosts = None"
    and ret: "signHost L ca hosts hostMap = (Returned cert None, hm)"
  shows "\<exists>csprng template x509ca pub csprng' H.
           x509_ParseCertificate L (hd (Certificate ca)) = Inr x509ca \<and>
           template = signHost_template L x509ca hosts (time_Date 2049 12 31)
             (hashSorted (hosts @ [goproxySignerVersion, '':'' @ runtime_Version L])) \<and>
           x509_CreateCertificate L csprng template x509ca pub (PrivateKey ca)
             = (Inr (hd (Certificate cert)), csprng') \<and>
           H = sha1_Sum (concat (map (\<lambda>s. s @ '','')
                 (sort (hosts @ [goproxySignerVersion, '':'' @ runtime_Version L])))) \<and>
           SerialNumber template = big_SetBytes H \<and>
           big_SetBytes H = (\<Sum>n < length H. of_char (rev H ! n) * 256 ^ n)"
proof -
  from signHost_minted [OF miss ret] obtain ca0 rest x509ca csprng certpriv csprng1 der csprng2
    where ca: "Certificate ca = ca0 # rest" and parse: "x509_ParseCertificate L ca0 = Inr x509ca"
      and cr: "x509_CreateCertificate L csprng1
             (signHost_template L x509ca hosts (time_Date 2049 12 31)
                (hashSorted (hosts @ [goproxySignerVersion, '':'' @ runtime_Version L])))
             x509ca (rsa_PublicKey L certpriv) (PrivateKey ca) = (Inr der, csprng2)"
      and cert: "cert = \<lparr>Certificate = [der, ca0], PrivateKey = Some certpriv\<rparr>"
    by blast
  define H where "H = sha1_Sum (concat (map (\<lambda>s. s @ '','')
                 (sort (hosts @ [goproxySignerVersion, '':'' @ runtime_Version L]))))"
  define t where "t = signHost_template L x509ca hosts (time_Date 2049 12 31)
                (hashSorted (hosts @ [goproxySignerVersion, '':'' @ runtime_Version L]))"
  have "hashSorted (hosts @ [goproxySignerVersion, '':'' @ runtime_Version L]) = H"
    by (simp add: hashSorted_def hash_writes_concat H_def)
  then have "SerialNumber t = big_SetBytes H"
    by (simp add: t_def signHost_template_def Let_def signHost_hosts_fixed)
  moreover from cr cert have "x509_CreateCertificate L csprng1 t x509ca (rsa_PublicKey L certpriv)
      (PrivateKey ca) = (Inr (hd (Certificate cert)), csprng2)"
    by (simp add: t_def)
  moreover from ca parse have "x509_ParseCertificate L (hd (Certificate ca)) = Inr x509ca"
    by simp
  moreover note big_SetBytes_big_endian [of H] H_def t_def
  ultimately show ?thesis by blast
qed

theorem signHost_serial_witness:
  "\<exists>cert hm.
     signHost_cache (None :: (sample_der, sample_key) hostMap) [''a.com''] = None \<and>
     signHost sample_lib sample_ca [''a.com''] None = (Returned cert None, hm) \<and>
     (\<exists>csprng template x509ca pub csprng' H.
           x509_ParseCertificate sample_lib (hd (Certificate sample_ca)) = Inr x509ca \<and>
           template = signHost_template sample_lib x509ca [''a.com''] (time_Date 2049 12 31)
             (hashSorted ([''a.com''] @ [goproxySignerVersion, '':'' @ runtime_Version sample_lib])) \<and>
           x509_CreateCertificate sample_lib csprng template x509ca pub (PrivateKey sample_ca)
             = (Inr (hd (Certificate cert)), csprng') \<and>
           H = sha1_Sum (concat (map (\<lambda>s. s @ '','')
                 (sort ([''a.com''] @ [goproxySignerVersion, '':'' @ runtime_Version sample_lib])))) \<and>
           SerialNumber template = big_SetBytes H \<and>
           big_SetBytes H = (\<Sum>n < length H. of_char (rev H ! n) * 256 ^ n))"
proof -
  have miss: "signHost_cache (None :: (sample_der, sample_key) hostMap) [''a.com''] = None"
    by (simp add: signHost_cache_def)
  obtain cert hm where
    ret: "signHost sample_lib sample_ca [''a.com''] None = (Returned cert None, hm)"
    by (simp add: sample_run)
  note concl = signHost_serial [OF miss ret]
  show ?thesis
    by (rule exI [of _ cert], rule exI [of _ hm]) (intro conjI miss ret concl)
qed


text \<open>
  For the single host \<open>a.com\<close> both tags sort before the host, and the serial number
  of the minted leaf is not the one obtained by sorting the hosts and appending the
  tags afterwards.
\<close>

theorem signHost_serial_tags_sorted_in:
  "(case fst (signHost sample_lib sample_ca [''a.com''] None) of
      Returned cert None \<Rightarrow>
        (case Certificate cert of
           SampleDer leaf _ _ # _ \<Rightarrow>
             SerialNumber leaf = 162969626141310011250590864462645296389293943214 \<and>
             serial_sorted_then_tagged [''a.com''] (runtime_Version sample_lib)
               = 361604691417956183325276869220540291445790397922
         | _ \<Rightarrow> False)
    | _ \<Rightarrow> False)"
proof -
  have code: "hashSorted [''a.com'', goproxySignerVersion, '':go1.21.0''] =
      sha1_Sum '':go1.21.0,:goroxy1,a.com,''"
    unfolding hashSorted_def goproxySignerVersion_def sort_sample_tagged by simp
  have spec: "serial_sorted_then_tagged [''a.com''] ''go1.21.0'' =
      big_SetBytes (sha1_Sum ''a.com,:goroxy1,:go1.21.0,'')"
    by (simp add: serial_sorted_then_tagged_def goproxySignerVersion_def)
  show ?thesis
    by (simp add: sample_run signHost_template_def sample_ParseIP_names code code_hash_digest
        spec spec_hash_digest)
qed

section \<open>Properties of the CONNECT dispatcher\<close>

lemma conn_Write_sent:
  "sent (snd (conn_Write c s)) = (if writable c then sent c @ s else sent c)"
  by (auto simp: conn_Write_def writable_def split: option.splits nat.splits)

lemma conn_Write_closed: "closed (snd (conn_Write c s)) = closed c"
  by (auto simp: conn_Write_def split: option.splits nat.splits)

lemma conn_Close_closed: "closed (snd (conn_Close c))"
  by (simp add: conn_Close_def)

lemma conn_Close_sent: "sent (snd (conn_Close c)) = sent c"
  by (simp add: conn_Close_def)

lemma httpError_client:
  "closed (fst (httpError w log err)) \<and>
   sent (fst (httpError w log err)) =
     (if writable w then sent w @ ''HTTP/1.1 500 Server error'' @ CRLF @ CRLF @ error_msg err @ CRLF
      else sent w)"
proof -
  obtain e1 w1 where w: "conn_Write w (''HTTP/1.1 500 Server error'' @ CRLF @ CRLF @ error_msg err @ CRLF) = (e1, w1)"
    by (cases "conn_Write w (''HTTP/1.1 500 Server error'' @ CRLF @ CRLF @ error_msg err @ CRLF)")
  obtain e2 w2 where c: "conn_Close w1 = (e2, w2)"
    by (cases "conn_Close w1")
  from w c have "fst (httpError w log err) = w2"
    by (simp add: httpError_def Let_def)
  moreover from c have "closed w2" "sent w2 = sent w1"
    using conn_Close_closed [of w1] conn_Close_sent [of w1] by simp_all
  moreover from w have "sent w1 = (if writable w then sent w @ ''HTTP/1.1 500 Server error'' @ CRLF @ CRLF @ error_msg err @ CRLF else sent w)"
    using conn_Write_sent [of w "''HTTP/1.1 500 Server error'' @ CRLF @ CRLF @ error_msg err @ CRLF"] by simp
  ultimately show ?thesis by simp
qed

lemma handleHttps_accept_unfold:
  assumes hij: "hij = Some (Inr proxyClient)"
    and chain: "run_handlers (httpsHandlers proxy) (OkConnect proxy) (URL_Host r) = (todo, host)"
    and accept: "Action todo = ConnectAccept"
    and addr: "addr = (if hasPort_MatchString proxy host then host else host @ '':80'')"
  shows "handleHttps proxy r hij ctxResp =
           (case connectDial proxy ''tcp'' addr of
              Inl err \<Rightarrow>
                (case httpError proxyClient [] err of (c, log) \<Rightarrow>
                   Returned \<lparr>client = c, warnings = log, dialed = [(''tcp'', addr)],
                             next_step = Done\<rparr> None)
            | Inr targetSiteCon \<Rightarrow>
                (case conn_Write proxyClient (''HTTP/1.1 200 OK'' @ CRLF @ CRLF) of (_, c) \<Rightarrow>
                   Returned \<lparr>client = c, warnings = [], dialed = [(''tcp'', addr)],
                             next_step = Splice addr targetSiteCon\<rparr> None))"
proof -
  have a: "(if \<not> hasPort_MatchString proxy host then host @ '':80'' else host) = addr"
    by (simp add: addr)
  show ?thesis
    by (simp only: handleHttps_def hij chain accept a option.case sum.case prod.case
        ConnectActionLiteral.case Let_def)
qed


text \<open>
  C9. In the Accept mode of the CONNECT dispatcher the address dialed is the host,
  with \<open>":80"\<close> appended when \<open>hasPort\<close> does not match it. When the dial fails, the
  client connection is closed and \<open>"HTTP/1.1 500 Server error\r\n\r\n"\<close>, the error
  message and \<open>"\r\n"\<close> is all that has been written to it; when the dial succeeds,
  \<open>"HTTP/1.1 200 OK\r\n\r\n"\<close> is all that has been written when the tunnel starts.
  (On a client connection that takes no write, nothing is written.)
\<close>

theorem handleHttps_accept:
  assumes hij: "hij = Some (Inr proxyClient)"
    and chain: "run_handlers (httpsHandlers proxy) (OkConnect proxy) (URL_Host r) = (todo, host)"
    and accept: "Action todo = ConnectAccept"
    and addr: "addr = (if hasPort_MatchString proxy host then host else host @ '':80'')"
  shows "\<exists>res. handleHttps proxy r hij ctxResp = Returned res None \<and>
           dialed res = [(''tcp'', addr)] \<and>
           (case connectDial proxy ''tcp'' addr of
              Inl err \<Rightarrow>
                next_step res = Done \<and> closed (client res) \<and>
                sent (client res) =
                  (if writable proxyClient
                   then sent proxyClient @ ''HTTP/1.1 500 Server error'' @ CRLF @ CRLF
                          @ error_msg err @ CRLF
                   else sent proxyClient)
            | Inr target \<Rightarrow>
                next_step res = Splice addr target \<and>
                closed (client res) = closed proxyClient \<and>
                sent (client res) =
                  (if writable proxyClient
                   then sent proxyClient @ ''HTTP/1.1 200 OK'' @ CRLF @ CRLF
                   else sent proxyClient))"
proof (cases "connectDial proxy ''tcp'' addr")
  case (Inl err)
  obtain c log where h: "httpError proxyClient [] err = (c, log)"
    by (cases "httpError proxyClient [] err")
  with httpError_client [of proxyClient "[]" err]
  have "closed c" "sent c = (if writable proxyClient
                   then sent proxyClient @ ''HTTP/1.1 500 Server error'' @ CRLF @ CRLF
                          @ error_msg err @ CRLF
                   else sent proxyClient)"
    by simp_all
  with Inl h show ?thesis
    by (simp add: handleHttps_accept_unfold [OF hij chain accept addr])
next
  case (Inr target)
  obtain e c where w: "conn_Write proxyClient (''HTTP/1.1 200 OK'' @ CRLF @ CRLF) = (e, c)"
    by (cases "conn_Write proxyClient (''HTTP/1.1 200 OK'' @ CRLF @ CRLF)")
  with conn_Write_sent [of proxyClient "''HTTP/1.1 200 OK'' @ CRLF @ CRLF"]
    conn_Write_closed [of proxyClient "''HTTP/1.1 200 OK'' @ CRLF @ CRLF"]
  have "closed c = closed proxyClient" "sent c = (if writable proxyClient
                   then sent proxyClient @ ''HTTP/1.1 200 OK'' @ CRLF @ CRLF
                   else sent proxyClient)"
    by simp_all
  with Inr w show ?thesis
    by (simp add: handleHttps_accept_unfold [OF hij chain accept addr])
qed


theorem handleHttps_accept_witness:
  "Some (Inr fresh_conn) = Some (Inr fresh_conn) \<and>
   run_handlers (httpsHandlers sample_proxy) (OkConnect sample_proxy) ''up.example''
     = (OkConnect sample_proxy, ''up.example'') \<and>
   Action (OkConnect sample_proxy) = ConnectAccept \<and>
   ''up.example:80'' =
     (if hasPort_MatchString sample_proxy ''up.example'' then ''up.example'' else ''up.example'' @ '':80'') \<and>
   connectDial sample_proxy ''tcp'' ''up.example:80'' = Inr 1 \<and>
   (\<exists>res. handleHttps sample_proxy
            \<lparr>Method = ''CONNECT'', URL_Host = ''up.example'', URL_Opaque = [], Host = ''up.example'',
               Header = Map.empty\<rparr>
            (Some (Inr fresh_conn)) None = Returned res None \<and>
          dialed res = [(''tcp'', ''up.example:80'')] \<and>
          next_step res = Splice ''up.example:80'' 1 \<and>
          closed (client res) = False \<and>
          sent (client res) = ''HTTP/1.1 200 OK'' @ CRLF @ CRLF) \<and>
   connectDial sample_proxy ''tcp'' ''down.example:8443''
     = Inl (Error ''dial tcp down.example:8443: connection refused'') \<and>
   (\<exists>res. handleHttps sample_proxy
            \<lparr>Method = ''CONNECT'', URL_Host = ''down.example:8443'', URL_Opaque = [],
               Host = ''down.example:8443'',
               Header = Map.empty\<rparr>
            (Some (Inr fresh_conn)) None = Returned res None \<and>
          dialed res = [(''tcp'', ''down.example:8443'')] \<and>
          next_step res = Done \<and>
          closed (client res) \<and>
          sent (client res) = ''HTTP/1.1 500 Server error'' @ CRLF @ CRLF
            @ ''dial tcp down.example:8443: connection refused'' @ CRLF)"
proof -
  let ?r1 = "\<lparr>Method = ''CONNECT'', URL_Host = ''up.example'', URL_Opaque = [], Host = ''up.example'',
               Header = Map.empty\<rparr>"
  let ?r2 = "\<lparr>Method = ''CONNECT'', URL_Host = ''down.example:8443'', URL_Opaque = [],
               Host = ''down.example:8443'',
               Header = Map.empty\<rparr>"
  have chain1: "run_handlers (httpsHandlers sample_proxy) (OkConnect sample_proxy) (URL_Host ?r1)
     = (OkConnect sample_proxy, ''up.example'')"
    and chain2: "run_handlers (httpsHandlers sample_proxy) (OkConnect sample_proxy) (URL_Host ?r2)
     = (OkConnect sample_proxy, ''down.example:8443'')"
    by (simp_all add: sample_proxy_def)
  have accept: "Action (OkConnect sample_proxy) = ConnectAccept"
    by (simp add: OkConnect_def)
  have addr1: "''up.example:80'' =
     (if hasPort_MatchString sample_proxy ''up.example'' then ''up.example'' else ''up.example'' @ '':80'')"
    and addr2: "''down.example:8443'' =
     (if hasPort_MatchString sample_proxy ''down.example:8443'' then ''down.example:8443''
      else ''down.example:8443'' @ '':80'')"
    by (simp_all add: sample_proxy_def)
  have dial1: "connectDial sample_proxy ''tcp'' ''up.example:80'' = Inr 1"
    and dial2: "connectDial sample_proxy ''tcp'' ''down.example:8443''
     = Inl (Error ''dial tcp down.example:8443: connection refused'')"
    by (simp_all add: sample_proxy_def)
  have w: "writable fresh_conn" "sent fresh_conn = []" "closed fresh_conn = False"
    by (simp_all add: writable_def fresh_conn_def)
  from handleHttps_accept [OF refl chain1 accept addr1, of fresh_conn None]
  have 1: "\<exists>res. handleHttps sample_proxy ?r1 (Some (Inr fresh_conn)) None = Returned res None \<and>
          dialed res = [(''tcp'', ''up.example:80'')] \<and>
          next_step res = Splice ''up.example:80'' 1 \<and>
          closed (client res) = False \<and>
          sent (client res) = ''HTTP/1.1 200 OK'' @ CRLF @ CRLF"
    by (simp add: dial1 w)
  from handleHttps_accept [OF refl chain2 accept addr2, of fresh_conn None]
  have 2: "\<exists>res. handleHttps sample_proxy ?r2 (Some (Inr fresh_conn)) None = Returned res None \<and>
          dialed res = [(''tcp'', ''down.example:8443'')] \<and>
          next_step res = Done \<and>
          closed (client res) \<and>
          sent (client res) = ''HTTP/1.1 500 Server error'' @ CRLF @ CRLF
            @ ''dial tcp down.example:8443: connection refused'' @ CRLF"
    by (simp add: dial2 w)
  from chain1 have chain1': "run_handlers (httpsHandlers sample_proxy) (OkConnect sample_proxy) ''up.example''
     = (OkConnect sample_proxy, ''up.example'')"
    by simp
  show ?thesis
    by (intro conjI refl chain1' accept addr1 dial1 dial2 1 2)
qed

section \<open>Properties of the upstream proxy dialer\<close>

lemma io_ReadAll_acc:
  "io_ReadAll b acc = (acc @ fst (io_ReadAll b []), snd (io_ReadAll b []))"
proof (induction b arbitrary: acc)
  case Nil
  show ?case by simp
next
  case (Cons ev b)
  show ?case
  proof (cases ev)
    case (Data d)
    from Cons [of "acc @ d"] Cons [of d] Data show ?thesis by simp
  next
    case (ReadError e)
    then show ?thesis by simp
  qed
qed

lemma io_ReadAll_Data:
  "fst (io_ReadAll (Data d # b) []) = d @ fst (io_ReadAll b [])"
  "snd (io_ReadAll (Data d # b) []) = snd (io_ReadAll b [])"
  using io_ReadAll_acc [of b d] by simp_all

lemma io_ReadAll_LimitReader:
  "fst (io_ReadAll (io_LimitReader n b) []) = take n (fst (io_ReadAll b []))"
proof (induction b arbitrary: n)
  case Nil
  show ?case by simp
next
  case (Cons ev b)
  show ?case
  proof (cases ev)
    case (Data d)
    have A: "fst (io_ReadAll b d) = d @ fst (io_ReadAll b [])"
      using io_ReadAll_acc [of b d] by simp
    have B: "fst (io_ReadAll (io_LimitReader m b) d) = d @ fst (io_ReadAll (io_LimitReader m b) [])" for m
      using io_ReadAll_acc [of "io_LimitReader m b" d] by simp
    from Cons [of "n - length d"] Data show ?thesis
      by (simp add: A B)
  next
    case (ReadError e)
    then show ?thesis by simp
  qed
qed


text \<open>
  C8. The dial function hands out the proxy connection only after a 200 response to
  its CONNECT. After any other response whose body is read without error it closes
  the proxy connection and returns the error \<open>"proxy refused connection"\<close> followed by
  the body - for an \<open>https\<close> or \<open>wss\<close> proxy by its first 500 bytes at most. When
  reading the body fails, the error of the read is what the dial function returns.
\<close>

theorem connectDial_refusal:
  assumes resp: "http_ReadResponse E c (connectReq_for handler addr) = Inr resp"
  shows
    "(proxy_dial E network uHost = Inr c \<longrightarrow>
       (if StatusCode resp = 200 then
          connectDial_http E handler uHost network addr
            = \<lparr>dial_conn = Some c, dial_err = None, closed_conns = []\<rparr>
        else (case io_ReadAll (Body resp) [] of
                (body, None) \<Rightarrow>
                  connectDial_http E handler uHost network addr
                    = \<lparr>dial_conn = None,
                       dial_err = Some (Error (''proxy refused connection'' @ body)),
                       closed_conns = [c]\<rparr>
              | (body, Some err) \<Rightarrow>
                  dial_conn (connectDial_http E handler uHost network addr) = None \<and>
                  dial_err (connectDial_http E handler uHost network addr) = Some err))) \<and>
     (\<forall>c0. proxy_dial E network uHost = Inr c0 \<and> tls_Client E c0 = c \<longrightarrow>
       (if StatusCode resp = 200 then
          connectDial_https E handler uHost network addr
            = \<lparr>dial_conn = Some c, dial_err = None, closed_conns = []\<rparr>
        else (case io_ReadAll (io_LimitReader 500 (Body resp)) [] of
                (body, None) \<Rightarrow>
                  connectDial_https E handler uHost network addr
                    = \<lparr>dial_conn = None,
                       dial_err = Some (Error (''proxy refused connection'' @ body)),
                       closed_conns = [c]\<rparr> \<and>
                  length body \<le> 500 \<and>
                  body = take 500 (fst (io_ReadAll (Body resp) []))
              | (body, Some err) \<Rightarrow>
                  dial_conn (connectDial_https E handler uHost network addr) = None \<and>
                  dial_err (connectDial_https E handler uHost network addr) = Some err)))"
proof (intro conjI allI impI)
  assume "proxy_dial E network uHost = Inr c"
  with resp show "if StatusCode resp = 200 then
          connectDial_http E handler uHost network addr
            = \<lparr>dial_conn = Some c, dial_err = None, closed_conns = []\<rparr>
        else (case io_ReadAll (Body resp) [] of
                (body, None) \<Rightarrow>
                  connectDial_http E handler uHost network addr
                    = \<lparr>dial_conn = None,
                       dial_err = Some (Error (''proxy refused connection'' @ body)),
                       closed_conns = [c]\<rparr>
              | (body, Some err) \<Rightarrow>
                  dial_conn (connectDial_http E handler uHost network addr) = None \<and>
                  dial_err (connectDial_http E handler uHost network addr) = Some err)"
    by (simp add: connectDial_http_def Let_def split: prod.splits option.splits)
next
  fix c0
  assume "proxy_dial E network uHost = Inr c0 \<and> tls_Client E c0 = c"
  moreover have "fst (io_ReadAll (io_LimitReader 500 (Body resp)) []) =
      take 500 (fst (io_ReadAll (Body resp) []))"
    by (rule io_ReadAll_LimitReader)
  ultimately show "if StatusCode resp = 200 then
          connectDial_https E handler uHost network addr
            = \<lparr>dial_conn = Some c, dial_err = None, closed_conns = []\<rparr>
        else (case io_ReadAll (io_LimitReader 500 (Body resp)) [] of
                (body, None) \<Rightarrow>
                  connectDial_https E handler uHost network addr
                    = \<lparr>dial_conn = None,
                       dial_err = Some (Error (''proxy refused connection'' @ body)),
                       closed_conns = [c]\<rparr> \<and>
                  length body \<le> 500 \<and>
                  body = take 500 (fst (io_ReadAll (Body resp) []))
              | (body, Some err) \<Rightarrow>
                  dial_conn (connectDial_https E handler uHost network addr) = None \<and>
                  dial_err (connectDial_https E handler uHost network addr) = Some err)"
    using resp by (auto simp: connectDial_https_def Let_def split: prod.splits option.splits)
qed


theorem connectDial_refusal_witness:
  "http_ReadResponse (sample_upstream (sample_refusal [Data ''denied'']))
       1 (connectReq_for None ''example.com:443'')
     = Inr (sample_refusal [Data ''denied'']) \<and>
   proxy_dial (sample_upstream (sample_refusal [Data ''denied''])) ''tcp'' ''proxy.example:80'' = Inr 1 \<and>
   connectDial_http (sample_upstream (sample_refusal [Data ''denied'']))
       None ''proxy.example:80'' ''tcp'' ''example.com:443''
     = \<lparr>dial_conn = None, dial_err = Some (Error ''proxy refused connectiondenied''),
        closed_conns = [1]\<rparr> \<and>
   tls_Client (sample_upstream (sample_refusal [Data (replicate 600 CHR ''x'')])) 1 = 101 \<and>
   connectDial_https (sample_upstream (sample_refusal [Data (replicate 600 CHR ''x'')]))
       None ''proxy.example:443'' ''tcp'' ''example.com:443''
     = \<lparr>dial_conn = None,
        dial_err = Some (Error (''proxy refused connection'' @ replicate 500 CHR ''x'')),
        closed_conns = [101]\<rparr>"
proof -
  let ?E1 = "sample_upstream (sample_refusal [Data ''denied''])"
  let ?E2 = "sample_upstream (sample_refusal [Data (replicate 600 CHR ''x'')])"
  have r1: "http_ReadResponse ?E1 1 (connectReq_for None ''example.com:443'')
      = Inr (sample_refusal [Data ''denied''])"
    and d1: "proxy_dial ?E1 ''tcp'' ''proxy.example:80'' = Inr 1"
    by (simp_all add: sample_upstream_def)
  have r2: "http_ReadResponse ?E2 101 (connectReq_for None ''example.com:443'')
      = Inr (sample_refusal [Data (replicate 600 CHR ''x'')])"
    and d2: "proxy_dial ?E2 ''tcp'' ''proxy.example:443'' = Inr 1"
    and t2: "tls_Client ?E2 1 = 101"
    by (simp_all add: sample_upstream_def)
  from connectDial_refusal [OF r1, of "''tcp''" "''proxy.example:80''"] d1
  have a: "connectDial_http ?E1 None ''proxy.example:80'' ''tcp'' ''example.com:443''
     = \<lparr>dial_conn = None, dial_err = Some (Error ''proxy refused connectiondenied''),
        closed_conns = [1]\<rparr>"
    by (simp add: sample_refusal_def)
  from connectDial_refusal [OF r2, of "''tcp''" "''proxy.example:443''"] d2 t2
  have b: "connectDial_https ?E2 None ''proxy.example:443'' ''tcp'' ''example.com:443''
     = \<lparr>dial_conn = None,
        dial_err = Some (Error (''proxy refused connection'' @ replicate 500 CHR ''x'')),
        closed_conns = [101]\<rparr>"
    by (simp add: sample_refusal_def)
  show ?thesis
    by (intro conjI r1 d1 a t2 b)
qed

text \<open>
  A refusal whose body breaks off: the chained proxy answers 407 and the read of the
  body fails after \<open>"denied"\<close>. The dial function returns the error of the read, which
  does not mention the refusal, and has not closed the proxy connection.
\<close>

theorem connectDial_refusal_body_fails:
  "(case NewConnectDialToProxyWithHandler
           (sample_upstream (sample_refusal [Data ''denied'', ReadError (Error ''unexpected EOF'')]))
           ''http://proxy.example'' None of
      Some dial \<Rightarrow>
        dial ''tcp'' ''example.com:443''
          = \<lparr>dial_conn = None, dial_err = Some (Error ''unexpected EOF''), closed_conns = []\<rparr>
    | None \<Rightarrow> False) \<and>
   \<not> strings_Contains ''unexpected EOF'' ''proxy refused connection''"
  by (simp add: NewConnectDialToProxyWithHandler_def sample_upstream_def sample_refusal_def
      connectDial_http_def connectReq_for_def strings_IndexRune_def strings_Contains_def
      strings_HasPrefix_def)



section \<open>Properties of the response written to the MITM client\<close>

lemma conn_Write_unfailing:
  "unfailing c \<Longrightarrow> conn_Write c s = (None, c\<lparr>sent := sent c @ s\<rparr>)"
  by (simp add: conn_Write_def unfailing_def)

lemma unfailing_sent [simp]: "unfailing (c\<lparr>sent := s\<rparr>) = unfailing c"
  by (simp add: unfailing_def)

lemma conn_Write_prefix: "prefix (sent c) (sent (snd (conn_Write c s)))"
  by (auto simp: conn_Write_def split: option.splits nat.splits)

lemma conn_Write_ok: "conn_Write c s = (None, c') \<Longrightarrow> sent c' = sent c @ s"
  by (auto simp: conn_Write_def split: option.splits nat.splits if_splits)

lemma conn_Write_failed: "conn_Write c s = (Some e, c') \<Longrightarrow> c' = c"
  by (auto simp: conn_Write_def split: option.splits nat.splits if_splits)

lemma conn_WriteAll_prefix: "prefix (sent c) (sent (snd (conn_WriteAll c ss)))"
proof (induction ss arbitrary: c)
  case Nil
  show ?case by simp
next
  case (Cons s ss)
  obtain e c1 where w: "conn_Write c s = (e, c1)" by (cases "conn_Write c s")
  with conn_Write_prefix [of c s] have p: "prefix (sent c) (sent c1)" by simp
  show ?case
  proof (cases e)
    case None
    with w Cons [of c1] p show ?thesis by (auto intro: prefix_order.trans)
  next
    case (Some err)
    with w p show ?thesis by simp
  qed
qed

lemma conn_WriteAll_unfailing:
  "unfailing c \<Longrightarrow> conn_WriteAll c ss = (None, c\<lparr>sent := sent c @ concat ss\<rparr>)"
  by (induction ss arbitrary: c) (simp_all add: conn_Write_unfailing)

lemma chunkedWriter_Write_prefix: "prefix (sent c) (sent (snd (chunkedWriter_Write c d)))"
proof (cases "d = []")
  case True
  then show ?thesis by (simp add: chunkedWriter_Write_def)
next
  case False
  obtain e1 w1 where 1: "conn_Write c (strconv_FormatInt16 (length d) @ CRLF) = (e1, w1)"
    by (cases "conn_Write c (strconv_FormatInt16 (length d) @ CRLF)")
  obtain e2 w2 where 2: "conn_Write w1 d = (e2, w2)" by (cases "conn_Write w1 d")
  obtain e3 w3 where 3: "conn_Write w2 CRLF = (e3, w3)" by (cases "conn_Write w2 CRLF")
  from 1 2 3 conn_Write_prefix [of c "strconv_FormatInt16 (length d) @ CRLF"]
    conn_Write_prefix [of w1 d] conn_Write_prefix [of w2 CRLF]
  have "prefix (sent c) (sent w1)" "prefix (sent w1) (sent w2)" "prefix (sent w2) (sent w3)"
    by simp_all
  then have "prefix (sent c) (sent w2)" "prefix (sent c) (sent w3)"
    by (auto intro: prefix_order.trans)
  with False 1 2 3 \<open>prefix (sent c) (sent w1)\<close> show ?thesis
    by (auto simp: chunkedWriter_Write_def split: option.splits)
qed

lemma chunkedWriter_Write_unfailing:
  "unfailing c \<Longrightarrow>
     chunkedWriter_Write c d =
       ((length d, None), c\<lparr>sent := sent c @ (if d = [] then [] else chunk_frame d)\<rparr>)"
  by (simp add: chunkedWriter_Write_def conn_Write_unfailing chunk_frame_def)

lemma io_Copy_prefix: "prefix (sent c) (sent (fst (snd (io_Copy c b w))))"
proof (induction b arbitrary: c w)
  case Nil
  show ?case by simp
next
  case (Cons ev b)
  show ?case
  proof (cases ev)
    case (Data d)
    obtain nw e c1 where cw: "chunkedWriter_Write c d = ((nw, e), c1)"
      by (metis prod.exhaust)
    with chunkedWriter_Write_prefix [of c d] have p: "prefix (sent c) (sent c1)" by simp
    show ?thesis
    proof (cases e)
      case None
      with Data cw Cons [of c1 "w + nw"] p show ?thesis
        by (auto intro: prefix_order.trans)
    next
      case (Some err)
      with Data cw p show ?thesis by simp
    qed
  next
    case (ReadError err)
    then show ?thesis by simp
  qed
qed

lemma io_Copy_unfailing:
  "unfailing c \<Longrightarrow>
     fst (fst (io_Copy c b w)) = w + length (concat (lead_pieces b)) \<and>
     fst (snd (io_Copy c b w)) =
       c\<lparr>sent := sent c @ concat (map chunk_frame (filter (\<lambda>d. d \<noteq> []) (lead_pieces b)))\<rparr> \<and>
     snd (snd (io_Copy c b w)) = after_error b"
proof (induction b arbitrary: c w)
  case Nil
  then show ?case by simp
next
  case (Cons ev b)
  show ?case
  proof (cases ev)
    case (Data d)
    show ?thesis
    proof (cases "d = []")
      case True
      with Cons.IH [OF Cons.prems, of w] Data Cons.prems show ?thesis
        by (simp add: chunkedWriter_Write_unfailing)
    next
      case False
      from Cons.prems have u: "unfailing (c\<lparr>sent := sent c @ chunk_frame d\<rparr>)"
        by simp
      from Cons.IH [OF u, of "w + length d"] Data Cons.prems False show ?thesis
        by (simp add: chunkedWriter_Write_unfailing)
    qed
  next
    case (ReadError err)
    then show ?thesis by simp
  qed
qed

lemma body_pieces_split: "body_pieces b = lead_pieces b @ body_pieces (after_error b)"
  by (induction b rule: lead_pieces.induct) simp_all

lemma lead_pieces_no_error:
  "(\<forall>ev \<in> set b. \<exists>d. ev = Data d) \<Longrightarrow> lead_pieces b = body_pieces b \<and> after_error b = []"
  by (induction b rule: lead_pieces.induct) simp_all

lemma mitm_copy_body_prefix: "prefix (sent c) (sent (fst (mitm_copy_body c b)))"
proof (induction c b rule: mitm_copy_body.induct)
  case (1 wire b)
  obtain written e w1 rest where io: "io_Copy wire b 0 = ((written, e), w1, rest)"
    by (metis prod.exhaust)
  with io_Copy_prefix [of wire b 0] have p: "prefix (sent wire) (sent w1)" by simp
  show ?case
  proof (cases "0 < written")
    case True
    from 1 [OF io [symmetric] refl refl True]
    have "prefix (sent w1) (sent (fst (mitm_copy_body w1 rest)))" .
    with p io True show ?thesis
      by (subst mitm_copy_body.simps) (auto intro: prefix_order.trans)
  next
    case False
    with p io show ?thesis
      by (subst mitm_copy_body.simps) simp
  qed
qed

lemma mitm_copy_body_unfailing:
  "unfailing c \<Longrightarrow>
     \<exists>ds. fst (mitm_copy_body c b) = c\<lparr>sent := sent c @ concat (map chunk_frame ds)\<rparr> \<and>
          set ds \<subseteq> set (body_pieces b) \<and> [] \<notin> set ds \<and>
          ((\<forall>ev \<in> set b. \<exists>d. ev = Data d) \<longrightarrow> ds = filter (\<lambda>d. d \<noteq> []) (body_pieces b))"
proof (induction c b rule: mitm_copy_body.induct)
  case (1 wire b)
  define ds1 where "ds1 = filter (\<lambda>d. d \<noteq> []) (lead_pieces b)"
  define w1 where "w1 = wire\<lparr>sent := sent wire @ concat (map chunk_frame ds1)\<rparr>"
  obtain e where io: "io_Copy wire b 0 = ((length (concat (lead_pieces b)), e), w1, after_error b)"
    using io_Copy_unfailing [OF "1.prems", of b 0]
    by (cases "io_Copy wire b 0") (auto simp: ds1_def w1_def)
  have sub1: "set ds1 \<subseteq> set (body_pieces b)" "[] \<notin> set ds1"
    by (auto simp: ds1_def body_pieces_split [of b])
  show ?case
  proof (cases "0 < length (concat (lead_pieces b))")
    case True
    from "1.prems" have u: "unfailing w1" by (simp add: w1_def)
    from 1(1) [OF io [symmetric] refl refl True u]
    obtain ds2 where r: "fst (mitm_copy_body w1 (after_error b)) =
          w1\<lparr>sent := sent w1 @ concat (map chunk_frame ds2)\<rparr>"
      and sub2: "set ds2 \<subseteq> set (body_pieces (after_error b))" "[] \<notin> set ds2"
      and ex2: "(\<forall>ev \<in> set (after_error b). \<exists>d. ev = Data d) \<longrightarrow>
          ds2 = filter (\<lambda>d. d \<noteq> []) (body_pieces (after_error b))"
      by blast
    have res: "fst (mitm_copy_body wire b) =
        wire\<lparr>sent := sent wire @ concat (map chunk_frame (ds1 @ ds2))\<rparr>"
      using io True r by (subst mitm_copy_body.simps) (simp add: w1_def)
    have sub: "set (ds1 @ ds2) \<subseteq> set (body_pieces b)" "[] \<notin> set (ds1 @ ds2)"
      using sub1 sub2 by (auto simp: body_pieces_split [of b])
    have ex: "(\<forall>ev \<in> set b. \<exists>d. ev = Data d) \<longrightarrow>
        ds1 @ ds2 = filter (\<lambda>d. d \<noteq> []) (body_pieces b)"
    proof
      assume ne: "\<forall>ev \<in> set b. \<exists>d. ev = Data d"
      from lead_pieces_no_error [OF ne] ex2 show "ds1 @ ds2 = filter (\<lambda>d. d \<noteq> []) (body_pieces b)"
        by (simp add: ds1_def)
    qed
    from res sub ex show ?thesis by blast
  next
    case False
    then have "ds1 = []"
      by (auto simp: ds1_def filter_empty_conv)
    moreover from io False have "fst (mitm_copy_body wire b) = w1"
      by (subst mitm_copy_body.simps) simp
    moreover have "(\<forall>ev \<in> set b. \<exists>d. ev = Data d) \<longrightarrow>
        ds1 = filter (\<lambda>d. d \<noteq> []) (body_pieces b)"
      using lead_pieces_no_error [of b] by (auto simp: ds1_def)
    ultimately show ?thesis
      using sub1 by (intro exI [of _ ds1]) (simp add: w1_def)
  qed
qed

lemma mitm_header_fields:
  "mitm_header resp ''Content-Length'' = None"
  "mitm_header resp ''Transfer-Encoding'' = Some [''chunked'']"
  by (simp_all add: mitm_header_def Header_Set_def Header_Del_def)

lemma mitm_write_response_Proto:
  "mitm_write_response hw c log (resp\<lparr>Proto := p\<rparr>) = mitm_write_response hw c log resp"
proof -
  have h: "mitm_header (resp\<lparr>Proto := p\<rparr>) = mitm_header resp"
    "mitm_status_text (resp\<lparr>Proto := p\<rparr>) = mitm_status_text resp"
    "Body (resp\<lparr>Proto := p\<rparr>) = Body resp"
    "StatusCode (resp\<lparr>Proto := p\<rparr>) = StatusCode resp"
    by (simp_all add: mitm_header_def mitm_status_text_def)
  show ?thesis
    unfolding mitm_write_response_def h ..
qed

lemma mitm_write_response_sent:
  "sent (fst (mitm_write_response hw c log resp)) = sent c \<or>
   (\<exists>tail. sent (fst (mitm_write_response hw c log resp)) =
      sent c @ ''HTTP/1.1 '' @ strconv_Itoa (StatusCode resp) @ '' '' @ mitm_status_text resp
        @ CRLF @ tail)"
proof -
  define line where "line = ''HTTP/1.1'' @ '' '' @ (strconv_Itoa (StatusCode resp) @ '' '')
      @ mitm_status_text resp @ CRLF"
  obtain e1 c1 where w1: "conn_Write c line = (e1, c1)" by (cases "conn_Write c line")
  obtain e2 c2 where w2: "conn_WriteAll c1 (hw (mitm_header resp)) = (e2, c2)"
    by (cases "conn_WriteAll c1 (hw (mitm_header resp))")
  obtain e3 c3 where w3: "conn_Write c2 CRLF = (e3, c3)" by (cases "conn_Write c2 CRLF")
  obtain c4 rest where w4: "mitm_copy_body c3 (Body resp) = (c4, rest)"
    by (cases "mitm_copy_body c3 (Body resp)")
  obtain e5 c5 where w5: "chunkedWriter_Close c4 = (e5, c5)" by (cases "chunkedWriter_Close c4")
  obtain e6 c6 where w6: "conn_Write c5 CRLF = (e6, c6)" by (cases "conn_Write c5 CRLF")
  have p2: "prefix (sent c1) (sent c2)"
    using conn_WriteAll_prefix [of c1 "hw (mitm_header resp)"] w2 by simp
  have p3: "prefix (sent c2) (sent c3)"
    using conn_Write_prefix [of c2 CRLF] w3 by simp
  have p4: "prefix (sent c3) (sent c4)"
    using mitm_copy_body_prefix [of c3 "Body resp"] w4 by simp
  have p5: "prefix (sent c4) (sent c5)"
    using conn_Write_prefix [of c4 "''0'' @ CRLF"] w5 by (simp add: chunkedWriter_Close_def)
  have p6: "prefix (sent c5) (sent c6)"
    using conn_Write_prefix [of c5 CRLF] w6 by simp
  from p2 p3 p4 p5 p6 have pre: "prefix (sent c1) (sent c2)" "prefix (sent c1) (sent c3)"
    "prefix (sent c1) (sent c5)" "prefix (sent c1) (sent c6)"
    by (auto intro: prefix_order.trans)
  have res: "fst (mitm_write_response hw c log resp) =
      (if e1 \<noteq> None then c1 else if e2 \<noteq> None then c2 else if e3 \<noteq> None then c3
       else if e5 \<noteq> None then c5 else c6)"
    using w1 w2 w3 w4 w5 w6
    by (auto simp: mitm_write_response_def Let_def line_def split: option.splits)
  show ?thesis
  proof (cases e1)
    case (Some err)
    with w1 have "c1 = c" by (auto dest: conn_Write_failed)
    with res Some show ?thesis by simp
  next
    case None
    with w1 have s1: "sent c1 = sent c @ line" by (auto dest: conn_Write_ok)
    from res None pre have "prefix (sent c1) (sent (fst (mitm_write_response hw c log resp)))"
      by auto
    then obtain tail where "sent (fst (mitm_write_response hw c log resp)) = sent c1 @ tail"
      by (auto simp: prefix_def)
    with s1 have "sent (fst (mitm_write_response hw c log resp)) =
      sent c @ ''HTTP/1.1 '' @ strconv_Itoa (StatusCode resp) @ '' '' @ mitm_status_text resp
        @ CRLF @ tail"
      by (simp add: line_def)
    then show ?thesis by blast
  qed
qed

lemma mitm_write_response_unfailing:
  assumes u: "unfailing c"
  shows "\<exists>ds. mitm_write_response hw c log resp =
           (c\<lparr>sent := sent c @ ''HTTP/1.1 '' @ strconv_Itoa (StatusCode resp) @ '' ''
                 @ mitm_status_text resp @ CRLF @ concat (hw (mitm_header resp)) @ CRLF
                 @ concat (map chunk_frame ds) @ ''0'' @ CRLF @ CRLF\<rparr>, log, True) \<and>
           set ds \<subseteq> set (body_pieces (Body resp)) \<and> [] \<notin> set ds \<and>
           ((\<forall>ev \<in> set (Body resp). \<exists>d. ev = Data d) \<longrightarrow>
              ds = filter (\<lambda>d. d \<noteq> []) (body_pieces (Body resp)))"
proof -
  define c3 where "c3 = c\<lparr>sent := sent c @ ''HTTP/1.1 '' @ strconv_Itoa (StatusCode resp) @ '' ''
                 @ mitm_status_text resp @ CRLF @ concat (hw (mitm_header resp)) @ CRLF\<rparr>"
  from u have u3: "unfailing c3" by (simp add: c3_def)
  from mitm_copy_body_unfailing [OF u3, of "Body resp"]
  obtain ds where cp: "fst (mitm_copy_body c3 (Body resp)) =
        c3\<lparr>sent := sent c3 @ concat (map chunk_frame ds)\<rparr>"
    and ds: "set ds \<subseteq> set (body_pieces (Body resp))" "[] \<notin> set ds"
      "(\<forall>ev \<in> set (Body resp). \<exists>d. ev = Data d) \<longrightarrow>
              ds = filter (\<lambda>d. d \<noteq> []) (body_pieces (Body resp))"
    by blast
  obtain rest where cp': "mitm_copy_body c3 (Body resp) =
      (c3\<lparr>sent := sent c3 @ concat (map chunk_frame ds)\<rparr>, rest)"
    using cp by (cases "mitm_copy_body c3 (Body resp)") simp
  have "mitm_write_response hw c log resp =
           (c\<lparr>sent := sent c @ ''HTTP/1.1 '' @ strconv_Itoa (StatusCode resp) @ '' ''
                 @ mitm_status_text resp @ CRLF @ concat (hw (mitm_header resp)) @ CRLF
                 @ concat (map chunk_frame ds) @ ''0'' @ CRLF @ CRLF\<rparr>, log, True)"
    using u cp'
    by (simp add: mitm_write_response_def Let_def conn_Write_unfailing conn_WriteAll_unfailing
        chunkedWriter_Close_def c3_def)
  with ds show ?thesis by blast
qed


text \<open>
  C7. For every response the per-request loop of the TLS MITM writes back (lines
  349-388): whatever reaches the client begins with the status line
  \<open>HTTP/1.1 <code> <reason>\<close>, and the protocol version of the response plays no part;
  the header written has no \<open>Content-Length\<close> and has \<open>Transfer-Encoding: chunked\<close>;
  and on a connection that takes every write, what is written is the status line, the
  header, an empty line, the pieces of the body each framed as a chunk (all the
  non-empty pieces, when no read of the body fails), the last chunk \<open>0\<close> and the trailing
  CRLF, after which the loop goes on.
\<close>

theorem mitm_write_response_chunked:
  "(case mitm_write_response Header_Write rawClientTls log resp of
      (c', log', continue) \<Rightarrow>
        (sent c' = sent rawClientTls \<or>
         (\<exists>tail. sent c' = sent rawClientTls @ ''HTTP/1.1 '' @ strconv_Itoa (StatusCode resp)
                    @ '' '' @ mitm_status_text resp @ CRLF @ tail)) \<and>
        (unfailing rawClientTls \<longrightarrow>
           continue \<and> log' = log \<and> closed c' = closed rawClientTls \<and>
           (\<exists>ds. sent c' = sent rawClientTls @ ''HTTP/1.1 '' @ strconv_Itoa (StatusCode resp)
                    @ '' '' @ mitm_status_text resp @ CRLF
                    @ concat (Header_Write (mitm_header resp)) @ CRLF
                    @ concat (map chunk_frame ds) @ ''0'' @ CRLF @ CRLF \<and>
                 set ds \<subseteq> set (body_pieces (Body resp)) \<and> [] \<notin> set ds \<and>
                 ((\<forall>ev \<in> set (Body resp). \<exists>d. ev = Data d) \<longrightarrow>
                    ds = filter (\<lambda>d. d \<noteq> []) (body_pieces (Body resp)))))) \<and>
   mitm_header resp ''Content-Length'' = None \<and>
   mitm_header resp ''Transfer-Encoding'' = Some [''chunked''] \<and>
   mitm_write_response Header_Write rawClientTls log (resp\<lparr>Proto := proto\<rparr>)
     = mitm_write_response Header_Write rawClientTls log resp \<and>
   chunk_frame d = strconv_FormatInt16 (length d) @ CRLF @ d @ CRLF"
proof -
  obtain c' log' continue where r: "mitm_write_response Header_Write rawClientTls log resp
      = (c', log', continue)"
    by (cases "mitm_write_response Header_Write rawClientTls log resp")
  from mitm_write_response_sent [of Header_Write rawClientTls log resp] r
  have a: "sent c' = sent rawClientTls \<or>
         (\<exists>tail. sent c' = sent rawClientTls @ ''HTTP/1.1 '' @ strconv_Itoa (StatusCode resp)
                    @ '' '' @ mitm_status_text resp @ CRLF @ tail)"
    by simp
  have b: "unfailing rawClientTls \<longrightarrow>
           continue \<and> log' = log \<and> closed c' = closed rawClientTls \<and>
           (\<exists>ds. sent c' = sent rawClientTls @ ''HTTP/1.1 '' @ strconv_Itoa (StatusCode resp)
                    @ '' '' @ mitm_status_text resp @ CRLF
                    @ concat (Header_Write (mitm_header resp)) @ CRLF
                    @ concat (map chunk_frame ds) @ ''0'' @ CRLF @ CRLF \<and>
                 set ds \<subseteq> set (body_pieces (Body resp)) \<and> [] \<notin> set ds \<and>
                 ((\<forall>ev \<in> set (Body resp). \<exists>d. ev = Data d) \<longrightarrow>
                    ds = filter (\<lambda>d. d \<noteq> []) (body_pieces (Body resp))))"
  proof
    assume "unfailing rawClientTls"
    from mitm_write_response_unfailing [OF this, of Header_Write log resp] r
    show "continue \<and> log' = log \<and> closed c' = closed rawClientTls \<and>
           (\<exists>ds. sent c' = sent rawClientTls @ ''HTTP/1.1 '' @ strconv_Itoa (StatusCode resp)
                    @ '' '' @ mitm_status_text resp @ CRLF
                    @ concat (Header_Write (mitm_header resp)) @ CRLF
                    @ concat (map chunk_frame ds) @ ''0'' @ CRLF @ CRLF \<and>
                 set ds \<subseteq> set (body_pieces (Body resp)) \<and> [] \<notin> set ds \<and>
                 ((\<forall>ev \<in> set (Body resp). \<exists>d. ev = Data d) \<longrightarrow>
                    ds = filter (\<lambda>d. d \<noteq> []) (body_pieces (Body resp))))"
      by auto
  qed
  have ab: "(case mitm_write_response Header_Write rawClientTls log resp of
      (c', log', continue) \<Rightarrow>
        (sent c' = sent rawClientTls \<or>
         (\<exists>tail. sent c' = sent rawClientTls @ ''HTTP/1.1 '' @ strconv_Itoa (StatusCode resp)
                    @ '' '' @ mitm_status_text resp @ CRLF @ tail)) \<and>
        (unfailing rawClientTls \<longrightarrow>
           continue \<and> log' = log \<and> closed c' = closed rawClientTls \<and>
           (\<exists>ds. sent c' = sent rawClientTls @ ''HTTP/1.1 '' @ strconv_Itoa (StatusCode resp)
                    @ '' '' @ mitm_status_text resp @ CRLF
                    @ concat (Header_Write (mitm_header resp)) @ CRLF
                    @ concat (map chunk_frame ds) @ ''0'' @ CRLF @ CRLF \<and>
                 set ds \<subseteq> set (body_pieces (Body resp)) \<and> [] \<notin> set ds \<and>
                 ((\<forall>ev \<in> set (Body resp). \<exists>d. ev = Data d) \<longrightarrow>
                    ds = filter (\<lambda>d. d \<noteq> []) (body_pieces (Body resp))))))"
    unfolding r prod.case using a b by (rule conjI)
  have cf: "chunk_frame d = strconv_FormatInt16 (length d) @ CRLF @ d @ CRLF"
    by (simp add: chunk_frame_def)
  show ?thesis
    by (intro conjI ab mitm_header_fields mitm_write_response_Proto cf)
qed



lemma sample_response_eval:
  "strconv_Itoa (StatusCode sample_response) = ''200''"
  "mitm_status_text sample_response = ''OK''"
  "concat (sample_Header_Write (mitm_header sample_response)) =
     ''Content-Type: text/plain'' @ CRLF @ ''Transfer-Encoding: chunked'' @ CRLF"
  "filter (\<lambda>d. d \<noteq> []) (body_pieces (Body sample_response)) = [''hi'']"
  "chunk_frame ''hi'' = ''2'' @ CRLF @ ''hi'' @ CRLF"
  by (simp_all add: sample_response_def strconv_Itoa_def format_nat.simps digit_char_def
      mitm_status_text_def strings_HasPrefix_def sample_Header_Write_def mitm_header_def
      Header_Set_def Header_Del_def chunk_frame_def strconv_FormatInt16_def)

theorem mitm_write_response_chunked_witness:
  "unfailing fresh_conn \<and>
   (case mitm_write_response sample_Header_Write fresh_conn [] sample_response of
      (c', log', continue) \<Rightarrow>
        continue \<and> log' = [] \<and>
        sent c' = ''HTTP/1.1 200 OK'' @ CRLF
          @ ''Content-Type: text/plain'' @ CRLF @ ''Transfer-Encoding: chunked'' @ CRLF @ CRLF
          @ ''2'' @ CRLF @ ''hi'' @ CRLF @ ''0'' @ CRLF @ CRLF)"
proof -
  have u: "unfailing fresh_conn"
    by (simp add: unfailing_def fresh_conn_def)
  have nb: "\<forall>ev \<in> set (Body sample_response). \<exists>d. ev = Data d"
    by (simp add: sample_response_def)
  obtain c' log' continue where
    r: "mitm_write_response sample_Header_Write fresh_conn [] sample_response = (c', log', continue)"
    by (cases "mitm_write_response sample_Header_Write fresh_conn [] sample_response")
  from mitm_write_response_chunked [where Header_Write = sample_Header_Write
      and rawClientTls = fresh_conn and log = "[]" and resp = sample_response]
  have "continue \<and> log' = [] \<and>
        sent c' = ''HTTP/1.1 200 OK'' @ CRLF
          @ ''Content-Type: text/plain'' @ CRLF @ ''Transfer-Encoding: chunked'' @ CRLF @ CRLF
          @ ''2'' @ CRLF @ ''hi'' @ CRLF @ ''0'' @ CRLF @ CRLF"
    unfolding r prod.case using u nb
    by (auto simp: sample_response_eval fresh_conn_def)
  with u r show ?thesis by simp
qed

end
